theory Spec2Isabelle
  imports Main "HOL-Library.Multiset"
begin

section \<open>Calendar time\<close>

text \<open>
  The program reads the clock once per call of \<open>GetCurrentWeekStart\<close> and uses four
  operations of Go's \<open>time.Time\<close>: \<open>Weekday\<close>, \<open>AddDate\<close>, the accessors
  \<open>Year\<close>/\<open>Month\<close>/\<open>Day\<close> fed back into \<open>time.Date\<close>, and \<open>Equal\<close>.
  A time is an instant, in seconds and nanoseconds since 1 January 1970 UTC, with the
  location it is displayed in. A location is its table of zone transitions: the offset
  from UTC, in seconds, before the first transition, and the instant and new offset of
  each transition, in ascending order.
\<close>

record Location =
  zone_initial :: int
  zone_transitions :: "(int \<times> int) list"

record Time =
  unix_sec :: int
  nano :: nat
  location :: Location

text \<open>
  \<open>Location.lookup\<close>: the offset in use at an instant, with the start and the end of
  the period in which it is in use (\<open>None\<close> where the period has no bound).
\<close>

fun lookup_from :: "int \<Rightarrow> int option \<Rightarrow> (int \<times> int) list \<Rightarrow> int \<Rightarrow> int \<times> int option \<times> int option" where
  "lookup_from offset start [] sec = (offset, start, None)"
| "lookup_from offset start ((when, offset') # later) sec =
     (if sec < when then (offset, start, Some when)
      else lookup_from offset' (Some when) later sec)"

definition lookup :: "Location \<Rightarrow> int \<Rightarrow> int \<times> int option \<times> int option" where
  "lookup l sec = lookup_from (zone_initial l) None (zone_transitions l) sec"

text \<open>
  The wall-clock reading of a time in its location: the civil day, counted from
  1 January 1970, which stands for the year, month and day, and the seconds since that
  day's midnight, which stand for hour, minute and second.
\<close>

definition local_sec :: "Time \<Rightarrow> int" where
  "local_sec t = unix_sec t + fst (lookup (location t) (unix_sec t))"

definition civil_day :: "Time \<Rightarrow> int" where
  "civil_day t = local_sec t div 86400"

definition clock_sec :: "Time \<Rightarrow> int" where
  "clock_sec t = local_sec t mod 86400"

text \<open>\<open>Weekday\<close>: Sunday is 0, Saturday is 6; 1 January 1970 was a Thursday.\<close>

definition Weekday :: "Time \<Rightarrow> nat" where
  "Weekday t = nat ((civil_day t + 4) mod 7)"

text \<open>
  \<open>time.Date(year, month, day, hour, min, sec, nsec, loc)\<close>, for civil day \<open>d\<close> and
  second \<open>s\<close> of the day. The library takes the reading as if it were UTC, looks up the
  offset in use at that instant and subtracts it; when the instant so found lies outside
  the period of that offset, it subtracts the offset in use at the instant found. A
  reading that a transition skips thus comes out as an instant with another reading.
\<close>

definition Date :: "int \<Rightarrow> int \<Rightarrow> nat \<Rightarrow> Location \<Rightarrow> Time" where
  "Date d s ns l =
     (let unix = d * 86400 + s in
      case lookup l unix of (offset, start, end) \<Rightarrow>
        if offset \<noteq> 0 then
          (let utc = unix - offset;
               offset' = (if (case start of None \<Rightarrow> False | Some a \<Rightarrow> utc < a) \<or>
                             (case end of None \<Rightarrow> False | Some z \<Rightarrow> z \<le> utc)
                          then fst (lookup l utc) else offset)
           in \<lparr>unix_sec = unix - offset', nano = ns, location = l\<rparr>)
        else \<lparr>unix_sec = unix, nano = ns, location = l\<rparr>)"

text \<open>
  \<open>t.AddDate(0, 0, k)\<close> is \<open>time.Date\<close> of the reading of \<open>t\<close> with \<open>k\<close> added to
  the day.
\<close>

definition AddDate :: "Time \<Rightarrow> int \<Rightarrow> Time" where
  "AddDate t k = Date (civil_day t + k) (clock_sec t) (nano t) (location t)"

text \<open>\<open>t.Equal(u)\<close>: the two values denote the same instant, in whatever location.\<close>

definition Equal :: "Time \<Rightarrow> Time \<Rightarrow> bool" where
  "Equal t u = (unix_sec t = unix_sec u \<and> nano t = nano u)"

text \<open>
  \<open>GetCurrentWeekStart\<close>, with the clock reading \<open>time.Now()\<close> passed in as \<open>now\<close>.
\<close>

definition GetCurrentWeekStart :: "Time \<Rightarrow> Time" where
  "GetCurrentWeekStart now =
     (let daysFromSunday = int (Weekday now);
          weekStart = AddDate now (- daysFromSunday)
      in Date (civil_day weekStart) 0 0 (location weekStart))"

text \<open>
  Two locations: UTC, and America/Havana around March 2024, where the clocks go from
  0:00 to 1:00 on Sunday 10 March (5:00 UTC) and the offset changes from 5 to 4 hours
  behind UTC.
\<close>

definition utc :: Location where
  "utc = \<lparr>zone_initial = 0, zone_transitions = []\<rparr>"

definition havana :: Location where
  "havana = \<lparr>zone_initial = - 14400,
     zone_transitions = [(1699160400, - 18000), (1710046800, - 14400), (1730610000, - 18000)]\<rparr>"

section \<open>Dinners and the rotation state\<close>

record Dinner =
  Name :: string
  Category :: string
  Ingredients :: "string list"

record DinnerData =
  Dinners :: "string \<rightharpoonup> Dinner list"

record WeekState =
  WeekStart :: Time
  CurrentWeek :: "Dinner list"
  PreviousWeek :: "Dinner list"

text \<open>
  \<open>CheckNewWeek\<close> mutates the state through its pointer receiver; the model returns the
  state after the call.
\<close>

definition CheckNewWeek :: "Time \<Rightarrow> WeekState \<Rightarrow> WeekState" where
  "CheckNewWeek now s =
     (let currentWeekStart = GetCurrentWeekStart now
      in if \<not> Equal (WeekStart s) currentWeekStart
         then s\<lparr>PreviousWeek := CurrentWeek s, CurrentWeek := [], WeekStart := currentWeekStart\<rparr>
         else s)"

definition AddSelection :: "WeekState \<Rightarrow> Dinner \<Rightarrow> WeekState" where
  "AddSelection s dinner = s\<lparr>CurrentWeek := CurrentWeek s @ [dinner]\<rparr>"

text \<open>
  \<open>IsAlreadySelected\<close> runs one loop over each list, returning at the first dinner of
  that name; \<open>name_in\<close> is that loop.
\<close>

fun name_in :: "Dinner list \<Rightarrow> string \<Rightarrow> bool" where
  "name_in [] dinnerName = False"
| "name_in (dinner # rest) dinnerName =
     (if Name dinner = dinnerName then True else name_in rest dinnerName)"

definition IsAlreadySelected :: "WeekState \<Rightarrow> string \<Rightarrow> bool" where
  "IsAlreadySelected s dinnerName =
     (if name_in (CurrentWeek s) dinnerName then True
      else if name_in (PreviousWeek s) dinnerName then True
      else False)"

section \<open>The random source\<close>

text \<open>
  The generator of \<open>math/rand\<close> is a parameter of the model: the infinite sequence of
  numbers it is going to deliver. A call that asks for a number below \<open>n\<close> takes the
  head of the sequence modulo \<open>n\<close> and leaves the tail, so every sequence of answers
  that the generator can give is the behaviour of some \<open>rng\<close>.
\<close>

type_synonym rng = "nat \<Rightarrow> nat"

definition draw :: "nat \<Rightarrow> rng \<Rightarrow> nat \<times> rng" where
  "draw n r = (r 0 mod n, \<lambda>k. r (Suc k))"

text \<open>
  A panic ends the run; it is the \<open>Inl\<close> result of the function that raises it.
  \<open>EmptyCategory c\<close> is the panic raised by \<open>PickRandomDinner\<close> itself, with the message
  "No dinners available in category: c"; \<open>IntnInvalidArgument\<close> is the panic of
  \<open>rand.Intn\<close> on an argument that is not positive.
\<close>

datatype error = EmptyCategory string | IntnInvalidArgument

definition Intn :: "nat \<Rightarrow> rng \<Rightarrow> error + nat \<times> rng" where
  "Intn n r = (if n = 0 then Inl IntnInvalidArgument else Inr (draw n r))"

text \<open>
  \<open>rand.Shuffle(n, swap)\<close> walks \<open>i\<close> from \<open>n - 1\<close> down to 1, draws \<open>j\<close> below
  \<open>i + 1\<close> and calls \<open>swap(i, j)\<close>; the program's \<open>swap\<close> exchanges two entries of
  the slice.
\<close>

definition swap :: "nat \<Rightarrow> nat \<Rightarrow> 'a list \<Rightarrow> 'a list" where
  "swap i j xs = xs[i := xs ! j, j := xs ! i]"

fun shuffle_from :: "nat \<Rightarrow> 'a list \<Rightarrow> rng \<Rightarrow> 'a list \<times> rng" where
  "shuffle_from 0 xs r = (xs, r)"
| "shuffle_from (Suc i) xs r =
     (case draw (Suc i + 1) r of (j, r') \<Rightarrow> shuffle_from i (swap (Suc i) j xs) r')"

definition Shuffle :: "nat \<Rightarrow> 'a list \<Rightarrow> rng \<Rightarrow> 'a list \<times> rng" where
  "Shuffle n xs r = shuffle_from (n - 1) xs r"

section \<open>The selector\<close>

text \<open>Indexing the catalog map at a missing key gives the nil slice, of length 0.\<close>

definition category_slice :: "DinnerData \<Rightarrow> string \<Rightarrow> Dinner list" where
  "category_slice dinners categoryName =
     (case Dinners dinners categoryName of None \<Rightarrow> [] | Some dinnerSlice \<Rightarrow> dinnerSlice)"

definition PickRandomDinner :: "DinnerData \<Rightarrow> string \<Rightarrow> rng \<Rightarrow> error + Dinner \<times> rng" where
  "PickRandomDinner dinners categoryName r =
     (let dinnerSlice = category_slice dinners categoryName
      in if length dinnerSlice = 0 then Inl (EmptyCategory categoryName)
         else (case Intn (length dinnerSlice) r of
                 Inl e \<Rightarrow> Inl e
               | Inr (i, r') \<Rightarrow> Inr (dinnerSlice ! i, r')))"

text \<open>
  The copy of \<open>PickRandomDinner\<close> in \<open>main.go\<close>, which a still older copy of the
  program shares, has no length check: it passes the length straight to \<open>rand.Intn\<close>.
  No function of either file calls it.
\<close>

definition PickRandomDinner_main_go ::
  "DinnerData \<Rightarrow> string \<Rightarrow> rng \<Rightarrow> error + Dinner \<times> rng" where
  "PickRandomDinner_main_go dinners categoryName r =
     (let dinnerSlice = category_slice dinners categoryName
      in case Intn (length dinnerSlice) r of
           Inl e \<Rightarrow> Inl e
         | Inr (i, r') \<Rightarrow> Inr (dinnerSlice ! i, r'))"

text \<open>
  \<open>pickDinnerFromCategory\<close> is a \<open>for\<close> loop without a condition. The result \<open>None\<close>
  is the run that never leaves the loop.
\<close>

partial_function (option) pickDinnerFromCategory ::
  "DinnerData \<Rightarrow> WeekState \<Rightarrow> string \<Rightarrow> rng \<Rightarrow> (error + Dinner \<times> rng) option" where
  "pickDinnerFromCategory dinners state category r =
     (case PickRandomDinner dinners category r of
        Inl e \<Rightarrow> Some (Inl e)
      | Inr (randomDinner, r') \<Rightarrow>
          if \<not> IsAlreadySelected state (Name randomDinner)
          then Some (Inr (randomDinner, r'))
          else pickDinnerFromCategory dinners state category r')"

type_synonym selections = "string \<rightharpoonup> Dinner"

text \<open>
  The loop \<open>for i, day := range days\<close> of \<open>SelectWeeklyDinners\<close>, from index \<open>i\<close> on;
  the second list holds the days still to come.
\<close>

fun select_days ::
  "DinnerData \<Rightarrow> string list \<Rightarrow> nat \<Rightarrow> string list \<Rightarrow> WeekState \<Rightarrow> selections \<Rightarrow> rng
     \<Rightarrow> (error + selections \<times> WeekState \<times> rng) option" where
  "select_days dinners categories i [] state selections r = Some (Inr (selections, state, r))"
| "select_days dinners categories i (day # days) state selections r =
     (case pickDinnerFromCategory dinners state (categories ! i) r of
        None \<Rightarrow> None
      | Some (Inl e) \<Rightarrow> Some (Inl e)
      | Some (Inr (dinner, r')) \<Rightarrow>
          select_days dinners categories (Suc i) days
            (AddSelection state dinner) (selections(day \<mapsto> dinner)) r')"

definition variable_categories :: "string list" where
  "variable_categories = [''noodles-rice'', ''pasta'', ''bread-y'', ''Salad'']"

definition variable_days :: "string list" where
  "variable_days = [''Monday'', ''Tuesday'', ''Wednesday'', ''Thursday'']"

definition SelectWeeklyDinners ::
  "DinnerData \<Rightarrow> WeekState \<Rightarrow> rng \<Rightarrow> (error + selections \<times> WeekState \<times> rng) option" where
  "SelectWeeklyDinners dinners state r =
     (case pickDinnerFromCategory dinners state ''soup'' r of
        None \<Rightarrow> None
      | Some (Inl e) \<Rightarrow> Some (Inl e)
      | Some (Inr (sundayDinner, r1)) \<Rightarrow>
          (case Shuffle (length variable_categories) variable_categories r1 of
             (categories, r2) \<Rightarrow>
               select_days dinners categories 0 variable_days
                 (AddSelection state sundayDinner) [''Sunday'' \<mapsto> sundayDinner] r2))"

section \<open>Postconditions and example inputs\<close>

text \<open>
  What a returned result of \<open>pickDinnerFromCategory\<close> satisfies: a panic is the one of
  the empty category, a dinner comes from the category and is not already selected.
\<close>

definition pick_post :: "DinnerData \<Rightarrow> WeekState \<Rightarrow> string \<Rightarrow> (error + Dinner \<times> rng) \<Rightarrow> bool" where
  "pick_post dinners state c res =
     (case res of
        Inl e \<Rightarrow> e = EmptyCategory c \<and> category_slice dinners c = []
      | Inr (x, r') \<Rightarrow> x \<in> set (category_slice dinners c) \<and> \<not> IsAlreadySelected state (Name x))"

text \<open>
  Three readings in UTC: noon of Tuesday 8 October 2024 (day 20004), the evening of the
  Thursday of the same week, and the first nanosecond of the Monday after. The week
  starts on Sunday, day 20002, and the week before on day 19995.
\<close>

definition tuesday_noon :: Time where
  "tuesday_noon = \<lparr>unix_sec = 1728388800, nano = 0, location = utc\<rparr>"

definition thursday_evening :: Time where
  "thursday_evening = \<lparr>unix_sec = 1728590400, nano = 0, location = utc\<rparr>"

definition next_monday :: Time where
  "next_monday = \<lparr>unix_sec = 1728864000, nano = 1, location = utc\<rparr>"

text \<open>
  Two readings in Havana on Tuesday 12 March 2024: noon, and five nanoseconds after
  midnight.
\<close>

definition havana_tuesday_noon :: Time where
  "havana_tuesday_noon = \<lparr>unix_sec = 1710259200, nano = 0, location = havana\<rparr>"

definition havana_tuesday_early :: Time where
  "havana_tuesday_early = \<lparr>unix_sec = 1710216000, nano = 5, location = havana\<rparr>"

definition week_example_state :: WeekState where
  "week_example_state =
     \<lparr>WeekStart = Date 19995 0 0 utc,
      CurrentWeek = [\<lparr>Name = ''Ramen'', Category = ''noodles-rice'', Ingredients = [''noodles'']\<rparr>],
      PreviousWeek = []\<rparr>"

text \<open>
  The dinners that a run of \<open>SelectWeeklyDinners\<close> picks, in order: each one is not
  already selected in the state that holds the picks before it.
\<close>

fun fresh_picks :: "WeekState \<Rightarrow> Dinner list \<Rightarrow> bool" where
  "fresh_picks st [] = True"
| "fresh_picks st (x # xs) = (\<not> IsAlreadySelected st (Name x) \<and> fresh_picks (AddSelection st x) xs)"

text \<open>The assignments \<open>selections[day] = dinner\<close> of a run, day by day.\<close>

fun record_picks :: "string list \<Rightarrow> Dinner list \<Rightarrow> selections \<Rightarrow> selections" where
  "record_picks (day # days) (x # xs) m = record_picks days xs (m(day \<mapsto> x))"
| "record_picks days xs m = m"

definition week_days :: "string list" where
  "week_days = ''Sunday'' # variable_days"

text \<open>A random source that delivers 0, 1, 2, ... from \<open>n\<close> on.\<close>

definition counting_draws :: "nat \<Rightarrow> rng" where
  "counting_draws n = (\<lambda>k. n + k)"

definition minestrone :: Dinner where
  "minestrone = \<lparr>Name = ''Minestrone'', Category = ''soup'', Ingredients = [''beans'', ''carrots'']\<rparr>"

definition pho :: Dinner where
  "pho = \<lparr>Name = ''Pho'', Category = ''soup'', Ingredients = [''broth'', ''rice noodles'']\<rparr>"

definition ramen :: Dinner where
  "ramen = \<lparr>Name = ''Ramen'', Category = ''noodles-rice'', Ingredients = [''noodles'']\<rparr>"

definition fried_rice :: Dinner where
  "fried_rice = \<lparr>Name = ''Fried Rice'', Category = ''noodles-rice'', Ingredients = [''rice'', ''egg'']\<rparr>"

definition lasagna :: Dinner where
  "lasagna = \<lparr>Name = ''Lasagna'', Category = ''pasta'', Ingredients = [''sheets'', ''ragu'']\<rparr>"

definition pizza :: Dinner where
  "pizza = \<lparr>Name = ''Pizza'', Category = ''bread-y'', Ingredients = [''dough'', ''tomato'']\<rparr>"

definition caesar :: Dinner where
  "caesar = \<lparr>Name = ''Caesar'', Category = ''Salad'', Ingredients = [''romaine'']\<rparr>"

definition example_catalog :: DinnerData where
  "example_catalog = \<lparr>Dinners =
     [''soup'' \<mapsto> [minestrone, pho], ''noodles-rice'' \<mapsto> [ramen, fried_rice],
      ''pasta'' \<mapsto> [lasagna], ''bread-y'' \<mapsto> [pizza], ''Salad'' \<mapsto> [caesar]]\<rparr>"

definition example_state :: WeekState where
  "example_state = \<lparr>WeekStart = Date 20002 0 0 utc, CurrentWeek = [], PreviousWeek = [minestrone, ramen]\<rparr>"

text \<open>A catalog whose only soup was served last week, and one without soups.\<close>

definition one_soup_catalog :: DinnerData where
  "one_soup_catalog = \<lparr>Dinners = [''soup'' \<mapsto> [minestrone]]\<rparr>"

definition no_soup_catalog :: DinnerData where
  "no_soup_catalog = \<lparr>Dinners = [''soup'' \<mapsto> [], ''pasta'' \<mapsto> [lasagna]]\<rparr>"

definition served_last_week :: WeekState where
  "served_last_week = \<lparr>WeekStart = Date 20002 0 0 utc, CurrentWeek = [], PreviousWeek = [minestrone]\<rparr>"

text \<open>A random source that delivers the numbers of a list, then zeros.\<close>

definition draws_of :: "nat list \<Rightarrow> rng" where
  "draws_of xs = (\<lambda>k. if k < length xs then xs ! k else 0)"

definition example_draws :: rng where
  "example_draws = draws_of [0, 3, 2, 3, 4, 5, 6, 7, 8]"

text \<open>What the run on the example catalog, state and draws selects.\<close>

definition example_selections :: selections where
  "example_selections =
     [''Sunday'' \<mapsto> pho, ''Monday'' \<mapsto> lasagna, ''Tuesday'' \<mapsto> caesar,
      ''Wednesday'' \<mapsto> fried_rice, ''Thursday'' \<mapsto> pizza]"

definition example_state_after :: WeekState where
  "example_state_after = example_state\<lparr>CurrentWeek := [pho, lasagna, caesar, fried_rice, pizza]\<rparr>"

text \<open>
  A random source is fair when, for every bound \<open>n\<close>, each number below \<open>n\<close> keeps
  coming up among its draws modulo \<open>n\<close>. The loop of \<open>pickDinnerFromCategory\<close> can
  run for ever on a source that is not: one that avoids every index of an unused dinner.
\<close>

definition fair :: "rng \<Rightarrow> bool" where
  "fair r = (\<forall>n i p. i < n \<longrightarrow> (\<exists>k. p \<le> k \<and> r k mod n = i))"

text \<open>
  A catalog has sufficient unused dinners for a state when each of the five categories
  holds a dinner that is not already selected and whose name occurs in none of the other
  four categories: picks from the other categories cannot use it up.
\<close>

definition owns_unused :: "DinnerData \<Rightarrow> WeekState \<Rightarrow> string list \<Rightarrow> string \<Rightarrow> bool" where
  "owns_unused dinners state categories c =
     (\<exists>x \<in> set (category_slice dinners c).
        \<not> IsAlreadySelected state (Name x) \<and>
        (\<forall>c' \<in> set categories. c' \<noteq> c \<longrightarrow> Name x \<notin> Name ` set (category_slice dinners c')))"

definition sufficient_unused :: "DinnerData \<Rightarrow> WeekState \<Rightarrow> bool" where
  "sufficient_unused dinners state =
     (\<forall>c \<in> set (''soup'' # variable_categories).
        owns_unused dinners state (''soup'' # variable_categories) c)"

text \<open>
  The same for the categories at positions \<open>i\<close> to \<open>i + n - 1\<close> of the shuffled list,
  which the loop over the days has still to visit.
\<close>

definition stocked :: "DinnerData \<Rightarrow> string list \<Rightarrow> nat \<Rightarrow> nat \<Rightarrow> WeekState \<Rightarrow> bool" where
  "stocked dinners cats i n st =
     (\<forall>k<n. \<exists>x \<in> set (category_slice dinners (cats ! (i + k))).
        \<not> IsAlreadySelected st (Name x) \<and>
        (\<forall>k'<n. k' \<noteq> k \<longrightarrow> Name x \<notin> Name ` set (category_slice dinners (cats ! (i + k')))))"

section \<open>Files and JSON\<close>

text \<open>
  The program touches two files, through \<open>os.Stat\<close>, \<open>os.ReadFile\<close> and
  \<open>os.WriteFile\<close>, and reads and writes them with \<open>encoding/json\<close>. The bytes of a
  file are kept as the JSON value they spell, or as \<open>Garbled\<close> when they are not a JSON
  text (\<open>json.Unmarshal\<close> then fails with a syntax error).
\<close>

datatype json =
    JNull
  | JBool bool
  | JNumber int
  | JString string
  | JArray "json list"
  | JObject "(string \<times> json) list"

datatype contents = Garbled | Document json

text \<open>
  A file that exists is readable or not. A write can fail in two ways: it is refused and
  the files stay as they were, or it breaks off and leaves a file that is not JSON.
\<close>

datatype disk_file = Unreadable | Readable contents

datatype write_fault = Refused | Torn

record World =
  files :: "string \<rightharpoonup> disk_file"
  fault :: "write_fault option"

text \<open>\<open>os.Stat\<close> followed by \<open>os.IsNotExist\<close>: is the file missing?\<close>

definition Stat_IsNotExist :: "string \<Rightarrow> World \<Rightarrow> bool \<times> World" where
  "Stat_IsNotExist name w = (files w name = None, w)"

definition ReadFile :: "string \<Rightarrow> World \<Rightarrow> contents option \<times> World" where
  "ReadFile name w =
     (case files w name of
        None \<Rightarrow> (None, w)
      | Some Unreadable \<Rightarrow> (None, w)
      | Some (Readable c) \<Rightarrow> (Some c, w))"

text \<open>\<open>os.WriteFile\<close> replaces the contents of the file, creating it when it is missing.\<close>

definition WriteFile :: "string \<Rightarrow> contents \<Rightarrow> World \<Rightarrow> bool \<times> World" where
  "WriteFile name c w =
     (case fault w of
        Some Refused \<Rightarrow> (False, w)
      | Some Torn \<Rightarrow> (False, w\<lparr>files := (files w)(name \<mapsto> Readable Garbled)\<rparr>)
      | None \<Rightarrow> (True, w\<lparr>files := (files w)(name \<mapsto> Readable c)\<rparr>))"

text \<open>
  Three functions of the standard library are parameters of the model. \<open>time_text\<close> is
  \<open>time.Time.MarshalJSON\<close>: the RFC 3339 text of a time, or an error (a year outside
  0..9999). \<open>text_time\<close> is \<open>time.Time.UnmarshalJSON\<close> on the text of a JSON string.
  \<open>coerce_utf8\<close> is what \<open>json.Marshal\<close> does to a Go string: bytes that are not valid
  UTF-8 are replaced by U+FFFD.
\<close>

record json_lib =
  time_text :: "Time \<Rightarrow> string option"
  text_time :: "string \<Rightarrow> Time option"
  coerce_utf8 :: "string \<Rightarrow> string"

text \<open>The contract of the library: a time that is marshalled is read back as it was.\<close>

definition time_round_trip :: "json_lib \<Rightarrow> bool" where
  "time_round_trip L = (\<forall>t txt. time_text L t = Some txt \<longrightarrow> text_time L txt = Some t)"

subsection \<open>Unmarshalling\<close>

text \<open>
  \<open>json.Unmarshal\<close> matches the key of an object member with a field's name tag, exactly
  or without regard to case. \<open>null\<close> leaves a string, a struct and a time as they are
  and sets a slice and a map to nil; a JSON value of the wrong kind is an error. The
  result \<open>None\<close> is the error return.
\<close>

definition ascii_lower :: "char \<Rightarrow> char" where
  "ascii_lower c =
     (let n = (of_char c :: nat) in if 65 \<le> n \<and> n \<le> 90 then char_of (n + 32) else c)"

definition key_matches :: "string \<Rightarrow> string \<Rightarrow> bool" where
  "key_matches key field = (map ascii_lower key = map ascii_lower field)"

fun decode_fields :: "('s \<Rightarrow> string \<Rightarrow> json \<Rightarrow> 's option) \<Rightarrow> 's \<Rightarrow> (string \<times> json) list \<Rightarrow> 's option" where
  "decode_fields f s [] = Some s"
| "decode_fields f s ((k, v) # members) =
     (case f s k v of None \<Rightarrow> None | Some s' \<Rightarrow> decode_fields f s' members)"

definition decode_string :: "string \<Rightarrow> json \<Rightarrow> string option" where
  "decode_string cur j = (case j of JString s \<Rightarrow> Some s | JNull \<Rightarrow> Some cur | _ \<Rightarrow> None)"

definition decode_time :: "json_lib \<Rightarrow> Time \<Rightarrow> json \<Rightarrow> Time option" where
  "decode_time L cur j = (case j of JString txt \<Rightarrow> text_time L txt | JNull \<Rightarrow> Some cur | _ \<Rightarrow> None)"

definition decode_slice :: "(json \<Rightarrow> 'a option) \<Rightarrow> json \<Rightarrow> 'a list option" where
  "decode_slice elem j =
     (case j of JArray js \<Rightarrow> those (map elem js) | JNull \<Rightarrow> Some [] | _ \<Rightarrow> None)"

definition zero_Dinner :: Dinner where
  "zero_Dinner = \<lparr>Name = [], Category = [], Ingredients = []\<rparr>"

definition Dinner_field :: "Dinner \<Rightarrow> string \<Rightarrow> json \<Rightarrow> Dinner option" where
  "Dinner_field d k v =
     (if key_matches k ''name'' then
        map_option (\<lambda>x. d\<lparr>Name := x\<rparr>) (decode_string (Name d) v)
      else if key_matches k ''category'' then
        map_option (\<lambda>x. d\<lparr>Category := x\<rparr>) (decode_string (Category d) v)
      else if key_matches k ''ingredients'' then
        map_option (\<lambda>x. d\<lparr>Ingredients := x\<rparr>) (decode_slice (decode_string []) v)
      else Some d)"

definition decode_Dinner :: "Dinner \<Rightarrow> json \<Rightarrow> Dinner option" where
  "decode_Dinner cur j =
     (case j of JObject members \<Rightarrow> decode_fields Dinner_field cur members
      | JNull \<Rightarrow> Some cur | _ \<Rightarrow> None)"

text \<open>The zero \<open>time.Time\<close> is midnight of 1 January of the year 1, in UTC.\<close>

definition zero_Time :: Time where
  "zero_Time = \<lparr>unix_sec = - 62135596800, nano = 0, location = utc\<rparr>"

definition zero_WeekState :: WeekState where
  "zero_WeekState = \<lparr>WeekStart = zero_Time, CurrentWeek = [], PreviousWeek = []\<rparr>"

definition WeekState_field :: "json_lib \<Rightarrow> WeekState \<Rightarrow> string \<Rightarrow> json \<Rightarrow> WeekState option" where
  "WeekState_field L s k v =
     (if key_matches k ''week_start'' then
        map_option (\<lambda>x. s\<lparr>WeekStart := x\<rparr>) (decode_time L (WeekStart s) v)
      else if key_matches k ''current_week'' then
        map_option (\<lambda>x. s\<lparr>CurrentWeek := x\<rparr>) (decode_slice (decode_Dinner zero_Dinner) v)
      else if key_matches k ''previous_week'' then
        map_option (\<lambda>x. s\<lparr>PreviousWeek := x\<rparr>) (decode_slice (decode_Dinner zero_Dinner) v)
      else Some s)"

definition Unmarshal_WeekState :: "json_lib \<Rightarrow> contents \<Rightarrow> WeekState option" where
  "Unmarshal_WeekState L c =
     (case c of
        Garbled \<Rightarrow> None
      | Document (JObject members) \<Rightarrow> decode_fields (WeekState_field L) zero_WeekState members
      | Document JNull \<Rightarrow> Some zero_WeekState
      | Document _ \<Rightarrow> None)"

text \<open>The catalog: an object whose member "dinners" maps category names to arrays.\<close>

definition category_member :: "(string \<rightharpoonup> Dinner list) \<Rightarrow> string \<Rightarrow> json \<Rightarrow> (string \<rightharpoonup> Dinner list) option" where
  "category_member m k v = map_option (\<lambda>xs. m(k \<mapsto> xs)) (decode_slice (decode_Dinner zero_Dinner) v)"

definition decode_categories :: "(string \<rightharpoonup> Dinner list) \<Rightarrow> json \<Rightarrow> (string \<rightharpoonup> Dinner list) option" where
  "decode_categories cur j =
     (case j of JObject members \<Rightarrow> decode_fields category_member cur members
      | JNull \<Rightarrow> Some Map.empty | _ \<Rightarrow> None)"

definition DinnerData_field :: "DinnerData \<Rightarrow> string \<Rightarrow> json \<Rightarrow> DinnerData option" where
  "DinnerData_field d k v =
     (if key_matches k ''dinners'' then
        map_option (\<lambda>x. d\<lparr>Dinners := x\<rparr>) (decode_categories (Dinners d) v)
      else Some d)"

definition Unmarshal_DinnerData :: "contents \<Rightarrow> DinnerData option" where
  "Unmarshal_DinnerData c =
     (case c of
        Garbled \<Rightarrow> None
      | Document (JObject members) \<Rightarrow> decode_fields DinnerData_field \<lparr>Dinners = Map.empty\<rparr> members
      | Document JNull \<Rightarrow> Some \<lparr>Dinners = Map.empty\<rparr>
      | Document _ \<Rightarrow> None)"

subsection \<open>Marshalling\<close>

text \<open>
  \<open>json.MarshalIndent\<close> writes a struct as an object with one member per field, under
  the field's name tag and in the order of declaration.
\<close>

definition encode_Dinner :: "json_lib \<Rightarrow> Dinner \<Rightarrow> json" where
  "encode_Dinner L d =
     JObject [(''name'', JString (coerce_utf8 L (Name d))),
              (''category'', JString (coerce_utf8 L (Category d))),
              (''ingredients'', JArray (map (\<lambda>i. JString (coerce_utf8 L i)) (Ingredients d)))]"

definition MarshalIndent_WeekState :: "json_lib \<Rightarrow> WeekState \<Rightarrow> contents option" where
  "MarshalIndent_WeekState L s =
     (case time_text L (WeekStart s) of
        None \<Rightarrow> None
      | Some txt \<Rightarrow>
          Some (Document (JObject
            [(''week_start'', JString txt),
             (''current_week'', JArray (map (encode_Dinner L) (CurrentWeek s))),
             (''previous_week'', JArray (map (encode_Dinner L) (PreviousWeek s)))])))"

section \<open>Loading, saving and the run\<close>

text \<open>The errors that the program wraps with \<open>fmt.Errorf\<close>, named by their messages.\<close>

datatype go_error =
    ErrorReadingFile
  | ErrorParsingJSON
  | ErrorReadingStateFile
  | ErrorParsingStateJSON
  | ErrorMarshalingState
  | ErrorWritingStateFile

definition StateFileName :: string where
  "StateFileName = ''dinner_state.json''"

definition LoadDinners :: "string \<Rightarrow> World \<Rightarrow> (go_error + DinnerData) \<times> World" where
  "LoadDinners filename w =
     (case ReadFile filename w of
        (None, w1) \<Rightarrow> (Inl ErrorReadingFile, w1)
      | (Some fileBytes, w1) \<Rightarrow>
          (case Unmarshal_DinnerData fileBytes of
             None \<Rightarrow> (Inl ErrorParsingJSON, w1)
           | Some data \<Rightarrow> (Inr data, w1)))"

definition LoadState :: "json_lib \<Rightarrow> Time \<Rightarrow> World \<Rightarrow> (go_error + WeekState) \<times> World" where
  "LoadState L now w =
     (case Stat_IsNotExist StateFileName w of
        (True, w1) \<Rightarrow>
          (Inr \<lparr>WeekStart = GetCurrentWeekStart now, CurrentWeek = [], PreviousWeek = []\<rparr>, w1)
      | (False, w1) \<Rightarrow>
          (case ReadFile StateFileName w1 of
             (None, w2) \<Rightarrow> (Inl ErrorReadingStateFile, w2)
           | (Some fileBytes, w2) \<Rightarrow>
               (case Unmarshal_WeekState L fileBytes of
                  None \<Rightarrow> (Inl ErrorParsingStateJSON, w2)
                | Some state \<Rightarrow> (Inr state, w2))))"

definition SaveState :: "json_lib \<Rightarrow> WeekState \<Rightarrow> World \<Rightarrow> (go_error + unit) \<times> World" where
  "SaveState L s w =
     (case MarshalIndent_WeekState L s of
        None \<Rightarrow> (Inl ErrorMarshalingState, w)
      | Some data \<Rightarrow>
          (case WriteFile StateFileName data w of
             (False, w1) \<Rightarrow> (Inl ErrorWritingStateFile, w1)
           | (True, w1) \<Rightarrow> (Inr (), w1)))"

text \<open>
  How a run of \<open>main\<close> ends: with one of its three error messages, with a panic of the
  selection, or with the menu printed. The run takes the two clock readings, of
  \<open>LoadState\<close> and of \<open>CheckNewWeek\<close>, the seeded random source and the files;
  \<open>None\<close> is the run that never ends.
\<close>

datatype outcome =
    ErrorLoadingDinners go_error
  | ErrorLoadingState go_error
  | Panicked error
  | ErrorSavingState go_error
  | MenuPrinted selections

definition main :: "json_lib \<Rightarrow> Time \<Rightarrow> Time \<Rightarrow> rng \<Rightarrow> World \<Rightarrow> (outcome \<times> World) option" where
  "main L now now2 r w =
     (case LoadDinners ''dinners.json'' w of
        (Inl err, w1) \<Rightarrow> Some (ErrorLoadingDinners err, w1)
      | (Inr dinners, w1) \<Rightarrow>
          (case LoadState L now w1 of
             (Inl err, w2) \<Rightarrow> Some (ErrorLoadingState err, w2)
           | (Inr state, w2) \<Rightarrow>
               (case SelectWeeklyDinners dinners (CheckNewWeek now2 state) r of
                  None \<Rightarrow> None
                | Some (Inl e) \<Rightarrow> Some (Panicked e, w2)
                | Some (Inr (selections, state', r')) \<Rightarrow>
                    (case SaveState L state' w2 of
                       (Inl err, w3) \<Rightarrow> Some (ErrorSavingState err, w3)
                     | (Inr u, w3) \<Rightarrow> Some (MenuPrinted selections, w3)))))"

text \<open>
  A state whose strings \<open>json.Marshal\<close> writes unchanged: they are valid UTF-8, as
  every string is that \<open>json.Unmarshal\<close> has produced.
\<close>

definition utf8_Dinner :: "json_lib \<Rightarrow> Dinner \<Rightarrow> bool" where
  "utf8_Dinner L d =
     (coerce_utf8 L (Name d) = Name d \<and> coerce_utf8 L (Category d) = Category d \<and>
      list_all (\<lambda>i. coerce_utf8 L i = i) (Ingredients d))"

definition utf8_state :: "json_lib \<Rightarrow> WeekState \<Rightarrow> bool" where
  "utf8_state L s = (list_all (utf8_Dinner L) (CurrentWeek s) \<and> list_all (utf8_Dinner L) (PreviousWeek s))"

text \<open>
  An instance of the library for the examples: a time in UTC is written in unary, and no
  other time can be written.
\<close>

definition unary_lib :: json_lib where
  "unary_lib =
     \<lparr>time_text = (\<lambda>t. if 0 \<le> unix_sec t \<and> location t = utc
          then Some (replicate (nat (unix_sec t)) CHR ''d'' @ replicate (nano t) CHR ''n'')
          else None),
      text_time = (\<lambda>s. Some \<lparr>unix_sec = int (length (takeWhile (\<lambda>c. c = CHR ''d'') s)),
                                nano = length (dropWhile (\<lambda>c. c = CHR ''d'') s),
                                location = utc\<rparr>),
      coerce_utf8 = (\<lambda>s. s)\<rparr>"

text \<open>
  Four sets of files: none at all; a catalog without soups and no state file; a state
  file that is not JSON; and the example catalog with the state that last week's run
  saved.
\<close>

definition empty_world :: World where
  "empty_world = \<lparr>files = Map.empty, fault = None\<rparr>"

definition no_soup_world :: World where
  "no_soup_world =
     \<lparr>files = [''dinners.json'' \<mapsto>
        Readable (Document (JObject [(''dinners'', JObject [(''soup'', JArray [])])]))],
      fault = None\<rparr>"

definition garbled_state_world :: World where
  "garbled_state_world =
     \<lparr>files = [''dinners.json'' \<mapsto> Readable (Document (JObject [])),
               ''dinner_state.json'' \<mapsto> Readable Garbled],
      fault = None\<rparr>"

definition last_week_state :: WeekState where
  "last_week_state = \<lparr>WeekStart = Date 19995 0 0 utc, CurrentWeek = [minestrone, ramen], PreviousWeek = []\<rparr>"

definition example_catalog_json :: json where
  "example_catalog_json =
     JObject [(''dinners'', JObject
       [(''soup'', JArray (map (encode_Dinner unary_lib) [minestrone, pho])),
        (''noodles-rice'', JArray (map (encode_Dinner unary_lib) [ramen, fried_rice])),
        (''pasta'', JArray (map (encode_Dinner unary_lib) [lasagna])),
        (''bread-y'', JArray (map (encode_Dinner unary_lib) [pizza])),
        (''Salad'', JArray (map (encode_Dinner unary_lib) [caesar]))])]"

definition example_world :: World where
  "example_world =
     \<lparr>files = [''dinners.json'' \<mapsto> Readable (Document example_catalog_json),
               ''dinner_state.json'' \<mapsto>
                  Readable (the (MarshalIndent_WeekState unary_lib last_week_state))],
      fault = None\<rparr>"

section \<open>The week boundary\<close>

subsection \<open>Locations without transitions\<close>

lemma lookup_fixed: "zone_transitions l = [] \<Longrightarrow> lookup l sec = (zone_initial l, None, None)"
  by (simp add: lookup_def)

lemma Date_fixed:
  assumes "zone_transitions l = []"
  shows "Date d s ns l = \<lparr>unix_sec = d * 86400 + s - zone_initial l, nano = ns, location = l\<rparr>"
  using assms by (simp add: Date_def lookup_fixed Let_def)

lemma civil_day_fixed:
  assumes "zone_transitions (location t) = []"
  shows "civil_day t = (unix_sec t + zone_initial (location t)) div 86400"
    and "clock_sec t = (unix_sec t + zone_initial (location t)) mod 86400"
  using assms by (simp_all add: civil_day_def clock_sec_def local_sec_def lookup_fixed)

lemma GetCurrentWeekStart_fixed:
  assumes "zone_transitions (location now) = []"
  shows "GetCurrentWeekStart now =
     Date (civil_day now - (civil_day now + 4) mod 7) 0 0 (location now)"
proof -
  let ?l = "location now"
  let ?d = "civil_day now - (civil_day now + 4) mod 7"
  have a: "AddDate now (- int (Weekday now)) =
      \<lparr>unix_sec = ?d * 86400 + clock_sec now - zone_initial ?l, nano = nano now, location = ?l\<rparr>"
    using assms by (simp add: AddDate_def Date_fixed Weekday_def)
  have "0 \<le> clock_sec now" "clock_sec now < 86400" by (simp_all add: clock_sec_def)
  then have "(?d * 86400 + clock_sec now) div 86400 = ?d" by simp
  then have "civil_day (AddDate now (- int (Weekday now))) = ?d"
    using assms by (simp add: a civil_day_fixed)
  then show ?thesis
    by (simp add: GetCurrentWeekStart_def Let_def a)
qed

lemma sunday_of_week:
  fixes s d :: int
  assumes "(s + 4) mod 7 = 0" and "s \<le> d" and "d < s + 7"
  shows "d - (d + 4) mod 7 = s"
  using assms by presburger

text \<open>
  Where the clocks never change, the boundary is midnight of the Sunday that starts the
  week of the reading.
\<close>

lemma GetCurrentWeekStart_in_week:
  assumes "zone_transitions (location now) = []"
    and "(s + 4) mod 7 = 0" and "s \<le> civil_day now" and "civil_day now < s + 7"
  shows "GetCurrentWeekStart now = Date s 0 0 (location now)"
  using assms by (simp add: GetCurrentWeekStart_fixed sunday_of_week)

lemma utc_fixed [simp]: "zone_transitions utc = []" "zone_initial utc = 0"
  by (simp_all add: utc_def)

lemma Date_utc: "Date d s ns utc = \<lparr>unix_sec = d * 86400 + s, nano = ns, location = utc\<rparr>"
  by (simp add: Date_fixed)

lemma week_start_utc:
  "GetCurrentWeekStart tuesday_noon = Date 20002 0 0 utc"
  "GetCurrentWeekStart thursday_evening = Date 20002 0 0 utc"
  "GetCurrentWeekStart next_monday = Date 20009 0 0 utc"
  by (simp_all add: GetCurrentWeekStart_fixed tuesday_noon_def thursday_evening_def next_monday_def
      civil_day_fixed)

subsection \<open>A skipped midnight\<close>

lemma lookup_havana:
  "lookup havana 1710259200 = (- 14400, Some 1710046800, Some 1730610000)"
  "lookup havana 1710216000 = (- 14400, Some 1710046800, Some 1730610000)"
  "lookup havana 1710072000 = (- 14400, Some 1710046800, Some 1730610000)"
  "lookup havana 1710028800 = (- 18000, Some 1699160400, Some 1710046800)"
  "lookup havana 1710046800 = (- 14400, Some 1710046800, Some 1730610000)"
  "lookup havana 1710043200 = (- 18000, Some 1699160400, Some 1710046800)"
  "lookup havana 1710086400 = (- 14400, Some 1710046800, Some 1730610000)"
  "lookup havana 1709942400 = (- 18000, Some 1699160400, Some 1710046800)"
  "lookup havana 1709960400 = (- 18000, Some 1699160400, Some 1710046800)"
  by (simp_all add: lookup_def havana_def)

lemma havana_fields:
  "location havana_tuesday_noon = havana" "nano havana_tuesday_noon = 0"
  "location havana_tuesday_early = havana" "nano havana_tuesday_early = 5"
  by (simp_all add: havana_tuesday_noon_def havana_tuesday_early_def)

lemma havana_noon_day:
  "civil_day havana_tuesday_noon = 19794" "Weekday havana_tuesday_noon = 2"
  "clock_sec havana_tuesday_noon = 43200"
  by (simp_all add: Weekday_def civil_day_def clock_sec_def local_sec_def havana_tuesday_noon_def
      lookup_havana)

lemma havana_early_day:
  "civil_day havana_tuesday_early = 19794" "Weekday havana_tuesday_early = 2"
  "clock_sec havana_tuesday_early = 0"
  by (simp_all add: Weekday_def civil_day_def clock_sec_def local_sec_def havana_tuesday_early_def
      lookup_havana)

text \<open>
  From Tuesday noon, \<open>AddDate\<close> reaches Sunday noon, and \<open>time.Date\<close> of that Sunday's
  midnight, which the clocks skip, is the instant an hour before the transition.
\<close>

lemma havana_noon:
  "GetCurrentWeekStart havana_tuesday_noon = \<lparr>unix_sec = 1710043200, nano = 0, location = havana\<rparr>"
proof -
  have 1: "AddDate havana_tuesday_noon (- 2) = \<lparr>unix_sec = 1710086400, nano = 0, location = havana\<rparr>"
    by (simp add: AddDate_def havana_noon_day havana_fields Date_def lookup_havana Let_def)
  have 2: "civil_day \<lparr>unix_sec = 1710086400, nano = 0, location = havana\<rparr> = 19792"
    by (simp add: civil_day_def local_sec_def lookup_havana)
  show ?thesis
    by (simp add: GetCurrentWeekStart_def havana_noon_day 1 2 Date_def lookup_havana Let_def)
qed

text \<open>
  From five nanoseconds after Tuesday's midnight, \<open>AddDate\<close> asks for a reading that
  the clocks skip and gets Saturday 23:00; the boundary is then Saturday's midnight.
\<close>

lemma havana_early:
  "GetCurrentWeekStart havana_tuesday_early = \<lparr>unix_sec = 1709960400, nano = 0, location = havana\<rparr>"
proof -
  have 1: "AddDate havana_tuesday_early (- 2) = \<lparr>unix_sec = 1710043200, nano = 5, location = havana\<rparr>"
    by (simp add: AddDate_def havana_early_day havana_fields Date_def lookup_havana Let_def)
  have 2: "civil_day \<lparr>unix_sec = 1710043200, nano = 5, location = havana\<rparr> = 19791"
    by (simp add: civil_day_def local_sec_def lookup_havana)
  show ?thesis
    by (simp add: GetCurrentWeekStart_def havana_early_day 1 2 Date_def lookup_havana Let_def)
qed

text \<open>
  Claim C8. In Havana the midnight that starts Sunday 10 March 2024 is skipped. For two
  readings of the Tuesday after, \<open>GetCurrentWeekStart\<close> returns Saturday 23:00 and
  Saturday 0:00: neither is midnight of the most recent Sunday, and two readings of one
  day of one week get different boundaries.
\<close>

theorem GetCurrentWeekStart_skipped_midnight:
  "civil_day havana_tuesday_noon = civil_day havana_tuesday_early \<and>
   Weekday havana_tuesday_noon = 2 \<and>
   GetCurrentWeekStart havana_tuesday_noon
     = \<lparr>unix_sec = 1710043200, nano = 0, location = havana\<rparr> \<and>
   Weekday (GetCurrentWeekStart havana_tuesday_noon) = 6 \<and>
   clock_sec (GetCurrentWeekStart havana_tuesday_noon) = 82800 \<and>
   GetCurrentWeekStart havana_tuesday_early
     = \<lparr>unix_sec = 1709960400, nano = 0, location = havana\<rparr> \<and>
   Weekday (GetCurrentWeekStart havana_tuesday_early) = 6 \<and>
   \<not> Equal (GetCurrentWeekStart havana_tuesday_noon) (GetCurrentWeekStart havana_tuesday_early)"
proof -
  have 1: "Weekday \<lparr>unix_sec = 1710043200, nano = 0, location = havana\<rparr> = 6"
    "clock_sec \<lparr>unix_sec = 1710043200, nano = 0, location = havana\<rparr> = 82800"
    "Weekday \<lparr>unix_sec = 1709960400, nano = 0, location = havana\<rparr> = 6"
    by (simp_all add: Weekday_def civil_day_def clock_sec_def local_sec_def lookup_havana)
  show ?thesis
    by (simp add: havana_noon havana_early havana_noon_day havana_early_day 1 Equal_def)
qed

section \<open>Rollover\<close>

text \<open>
  Claim C5. \<open>CheckNewWeek\<close> compares the stored \<open>WeekStart\<close> with the boundary computed
  from the clock. When they differ, the state after the call has the old \<open>CurrentWeek\<close>
  as its \<open>PreviousWeek\<close>, an empty \<open>CurrentWeek\<close> and the new boundary as \<open>WeekStart\<close>;
  when they are equal, the state is unchanged.
\<close>

theorem CheckNewWeek_rollover_or_unchanged:
  "(\<not> Equal (WeekStart s) (GetCurrentWeekStart now) \<longrightarrow>
       PreviousWeek (CheckNewWeek now s) = CurrentWeek s \<and>
       CurrentWeek (CheckNewWeek now s) = [] \<and>
       WeekStart (CheckNewWeek now s) = GetCurrentWeekStart now) \<and>
   (Equal (WeekStart s) (GetCurrentWeekStart now) \<longrightarrow> CheckNewWeek now s = s)"
  by (simp add: CheckNewWeek_def Let_def)

theorem CheckNewWeek_rollover_or_unchanged_witness:
  "\<not> Equal (WeekStart week_example_state) (GetCurrentWeekStart tuesday_noon) \<and>
   PreviousWeek (CheckNewWeek tuesday_noon week_example_state) = CurrentWeek week_example_state \<and>
   CurrentWeek (CheckNewWeek tuesday_noon week_example_state) = [] \<and>
   WeekStart (CheckNewWeek tuesday_noon week_example_state) = Date 20002 0 0 utc \<and>
   Equal (WeekStart (CheckNewWeek tuesday_noon week_example_state)) (GetCurrentWeekStart tuesday_noon) \<and>
   CheckNewWeek tuesday_noon (CheckNewWeek tuesday_noon week_example_state)
     = CheckNewWeek tuesday_noon week_example_state"
proof -
  have ws: "GetCurrentWeekStart tuesday_noon = Date 20002 0 0 utc"
    by (rule week_start_utc)
  have ne: "\<not> Equal (WeekStart week_example_state) (GetCurrentWeekStart tuesday_noon)"
    by (simp add: ws week_example_state_def Equal_def Date_utc)
  have eq: "Equal (WeekStart (CheckNewWeek tuesday_noon week_example_state)) (GetCurrentWeekStart tuesday_noon)"
    using ne CheckNewWeek_rollover_or_unchanged [of week_example_state tuesday_noon]
    by (simp add: Equal_def)
  show ?thesis
    using ne eq ws CheckNewWeek_rollover_or_unchanged [of week_example_state tuesday_noon]
      CheckNewWeek_rollover_or_unchanged [of "CheckNewWeek tuesday_noon week_example_state" tuesday_noon]
    by simp
qed

text \<open>
  Claim C6. Two calls of \<open>CheckNewWeek\<close> at clock readings with the same week boundary:
  the second call leaves the state as the first call returned it.
\<close>

theorem CheckNewWeek_idempotent:
  assumes "GetCurrentWeekStart now2 = GetCurrentWeekStart now1"
  shows "CheckNewWeek now2 (CheckNewWeek now1 s) = CheckNewWeek now1 s"
  using assms by (simp add: CheckNewWeek_def Let_def Equal_def)

theorem CheckNewWeek_idempotent_witness:
  "GetCurrentWeekStart thursday_evening = GetCurrentWeekStart tuesday_noon \<and>
   CheckNewWeek thursday_evening (CheckNewWeek tuesday_noon week_example_state)
     = CheckNewWeek tuesday_noon week_example_state \<and>
   CheckNewWeek tuesday_noon week_example_state \<noteq> week_example_state"
proof -
  have h: "GetCurrentWeekStart thursday_evening = GetCurrentWeekStart tuesday_noon"
    by (simp add: week_start_utc)
  have "CheckNewWeek tuesday_noon week_example_state \<noteq> week_example_state"
    by (simp add: CheckNewWeek_def week_start_utc Let_def week_example_state_def Equal_def Date_utc)
  then show ?thesis
    using h CheckNewWeek_idempotent [OF h, of week_example_state] by simp
qed

section \<open>Picking a dinner\<close>

lemma name_in_iff: "name_in xs n \<longleftrightarrow> n \<in> Name ` set xs"
  by (induction xs) auto

lemma IsAlreadySelected_iff:
  "IsAlreadySelected s n \<longleftrightarrow> n \<in> Name ` set (CurrentWeek s) \<or> n \<in> Name ` set (PreviousWeek s)"
  by (simp add: IsAlreadySelected_def name_in_iff)

lemma PickRandomDinner_Inr:
  assumes "PickRandomDinner dinners c r = Inr (x, r')"
  shows "category_slice dinners c \<noteq> [] \<and>
         x = category_slice dinners c ! (r 0 mod length (category_slice dinners c)) \<and>
         r' = (\<lambda>k. r (Suc k)) \<and> x \<in> set (category_slice dinners c)"
  using assms
  by (auto simp: PickRandomDinner_def Intn_def draw_def Let_def split: if_splits)

lemma PickRandomDinner_Inl:
  "PickRandomDinner dinners c r = Inl e \<longleftrightarrow> category_slice dinners c = [] \<and> e = EmptyCategory c"
  by (auto simp: PickRandomDinner_def Intn_def draw_def Let_def split: if_splits)

lemma PickRandomDinner_nonempty:
  assumes "category_slice dinners c \<noteq> []"
  shows "PickRandomDinner dinners c r =
         Inr (category_slice dinners c ! (r 0 mod length (category_slice dinners c)), \<lambda>k. r (Suc k))"
  using assms by (simp add: PickRandomDinner_def Intn_def draw_def Let_def)

lemma pickDinnerFromCategory_Some:
  assumes "pickDinnerFromCategory dinners state c r = Some res"
  shows "pick_post dinners state c res"
proof (rule pickDinnerFromCategory.raw_induct
    [where P = "\<lambda>dinners state c r res. pick_post dinners state c res", OF _ assms])
  fix pick dinners state category r res
  assume IH: "\<And>dinners state category r res.
      pick dinners state category r = Some res \<Longrightarrow> pick_post dinners state category res"
    and body: "(case PickRandomDinner dinners category r of
        Inl e \<Rightarrow> Some (Inl e)
      | Inr (randomDinner, r') \<Rightarrow>
          if \<not> IsAlreadySelected state (Name randomDinner)
          then Some (Inr (randomDinner, r'))
          else pick dinners state category r') = Some res"
  show "pick_post dinners state category res"
  proof (cases "PickRandomDinner dinners category r")
    case (Inl e)
    then have "res = Inl e" using body by simp
    moreover have "category_slice dinners category = [] \<and> e = EmptyCategory category"
      using Inl by (simp add: PickRandomDinner_Inl)
    ultimately show ?thesis by (simp add: pick_post_def)
  next
    case (Inr p)
    obtain x r' where p: "p = (x, r')" by (cases p)
    show ?thesis
    proof (cases "IsAlreadySelected state (Name x)")
      case True
      then have "pick dinners state category r' = Some res" using body Inr p by simp
      then show ?thesis by (rule IH)
    next
      case False
      then have "res = Inr (x, r')" using body Inr p by simp
      then show ?thesis
        using False PickRandomDinner_Inr [of dinners category r x r'] Inr p
        by (simp add: pick_post_def)
    qed
  qed
qed

lemma pickDinnerFromCategory_exhausted:
  assumes ne: "category_slice dinners c \<noteq> []"
    and used: "\<forall>x \<in> set (category_slice dinners c). IsAlreadySelected state (Name x)"
  shows "pickDinnerFromCategory dinners state c r = None"
proof (cases "pickDinnerFromCategory dinners state c r")
  case None
  then show ?thesis .
next
  case (Some res)
  from pickDinnerFromCategory_Some [OF Some] ne used show ?thesis
    by (cases res) (auto simp: pick_post_def)
qed

section \<open>The weekly selection\<close>

lemma swap_mset: "i < length xs \<Longrightarrow> j < length xs \<Longrightarrow> mset (swap i j xs) = mset xs"
  unfolding swap_def by (metis mset_swap)

lemma swap_length: "length (swap i j xs) = length xs"
  by (simp add: swap_def)

lemma shuffle_from_mset:
  "i < length xs \<Longrightarrow> mset (fst (shuffle_from i xs r)) = mset xs"
proof (induction i arbitrary: xs r)
  case 0
  then show ?case by simp
next
  case (Suc i)
  obtain j r' where d: "draw (Suc i + 1) r = (j, r')" by (cases "draw (Suc i + 1) r")
  then have "j < Suc i + 1" by (auto simp: draw_def)
  then have j: "j < length xs" using Suc.prems by simp
  have "mset (fst (shuffle_from i (swap (Suc i) j xs) r')) = mset (swap (Suc i) j xs)"
    using Suc.prems by (intro Suc.IH) (simp add: swap_length)
  then show ?case using d j Suc.prems by (simp add: swap_mset)
qed

lemma Shuffle_mset:
  assumes "0 < n" "n \<le> length xs"
  shows "mset (fst (Shuffle n xs r)) = mset xs"
  using assms by (simp add: Shuffle_def shuffle_from_mset)

lemma select_days_result:
  assumes "select_days dinners cats i days st sel r = Some (Inr (sel', st', r'))"
  shows "\<exists>picks. length picks = length days \<and>
      sel' = record_picks days picks sel \<and>
      st' = st\<lparr>CurrentWeek := CurrentWeek st @ picks\<rparr> \<and>
      fresh_picks st picks \<and>
      (\<forall>k<length days. picks ! k \<in> set (category_slice dinners (cats ! (i + k))))"
  using assms
proof (induction days arbitrary: i st sel r)
  case Nil
  then show ?case by simp
next
  case (Cons day days)
  from Cons.prems obtain dinner r1 where
    pick: "pickDinnerFromCategory dinners st (cats ! i) r = Some (Inr (dinner, r1))"
    and rest: "select_days dinners cats (Suc i) days (AddSelection st dinner) (sel(day \<mapsto> dinner)) r1
                = Some (Inr (sel', st', r'))"
    by (auto split: option.splits sum.splits)
  from pickDinnerFromCategory_Some [OF pick]
  have d: "dinner \<in> set (category_slice dinners (cats ! i))" "\<not> IsAlreadySelected st (Name dinner)"
    by (simp_all add: pick_post_def)
  from Cons.IH [OF rest] obtain picks where
    p: "length picks = length days"
      "sel' = record_picks days picks (sel(day \<mapsto> dinner))"
      "st' = (AddSelection st dinner)\<lparr>CurrentWeek := CurrentWeek (AddSelection st dinner) @ picks\<rparr>"
      "fresh_picks (AddSelection st dinner) picks"
      "\<forall>k<length days. picks ! k \<in> set (category_slice dinners (cats ! (Suc i + k)))"
    by blast
  have "\<forall>k<length (day # days). (dinner # picks) ! k \<in> set (category_slice dinners (cats ! (i + k)))"
  proof (intro allI impI)
    fix k assume "k < length (day # days)"
    then show "(dinner # picks) ! k \<in> set (category_slice dinners (cats ! (i + k)))"
      using d(1) p(5) by (cases k) auto
  qed
  moreover have "st' = st\<lparr>CurrentWeek := CurrentWeek st @ dinner # picks\<rparr>"
    using p(3) by (simp add: AddSelection_def)
  ultimately show ?case
    using p(1,2,4) d(2) by (intro exI [of _ "dinner # picks"]) simp
qed

lemma fresh_picks_names:
  assumes "fresh_picks st picks"
  shows "distinct (map Name picks) \<and>
         (\<forall>x \<in> set picks. Name x \<notin> Name ` set (CurrentWeek st) \<and> Name x \<notin> Name ` set (PreviousWeek st))"
  using assms
proof (induction picks arbitrary: st)
  case Nil
  then show ?case by simp
next
  case (Cons x xs)
  then have x: "\<not> IsAlreadySelected st (Name x)" and xs: "fresh_picks (AddSelection st x) xs"
    by simp_all
  from Cons.IH [OF xs] have
    "distinct (map Name xs)"
    "\<forall>y \<in> set xs. Name y \<notin> Name ` set (CurrentWeek st @ [x]) \<and> Name y \<notin> Name ` set (PreviousWeek st)"
    by (simp_all add: AddSelection_def)
  then show ?case using x by (auto simp: IsAlreadySelected_iff)
qed

lemma SelectWeeklyDinners_result:
  assumes "SelectWeeklyDinners dinners state r = Some (Inr (sel, state', r'))"
  shows "\<exists>picks cs. length picks = 5 \<and>
      sel = record_picks week_days picks Map.empty \<and>
      state' = state\<lparr>CurrentWeek := CurrentWeek state @ picks\<rparr> \<and>
      fresh_picks state picks \<and>
      mset cs = mset variable_categories \<and>
      (\<forall>k<5. picks ! k \<in> set (category_slice dinners ((''soup'' # cs) ! k)))"
proof -
  from assms obtain sundayDinner r1 where
    pick: "pickDinnerFromCategory dinners state ''soup'' r = Some (Inr (sundayDinner, r1))"
    by (auto simp: SelectWeeklyDinners_def split: option.splits sum.splits)
  obtain cs r2 where sh: "Shuffle (length variable_categories) variable_categories r1 = (cs, r2)"
    by (cases "Shuffle (length variable_categories) variable_categories r1")
  have rest: "select_days dinners cs 0 variable_days (AddSelection state sundayDinner)
           [''Sunday'' \<mapsto> sundayDinner] r2 = Some (Inr (sel, state', r'))"
    using assms pick sh by (simp add: SelectWeeklyDinners_def)
  have cs: "mset cs = mset variable_categories"
    using Shuffle_mset [of "length variable_categories" variable_categories r1] sh
    by (simp add: variable_categories_def)
  from pickDinnerFromCategory_Some [OF pick]
  have d: "sundayDinner \<in> set (category_slice dinners ''soup'')"
    "\<not> IsAlreadySelected state (Name sundayDinner)"
    by (simp_all add: pick_post_def)
  from select_days_result [OF rest] obtain picks where
    p: "length picks = length variable_days"
      "sel = record_picks variable_days picks [''Sunday'' \<mapsto> sundayDinner]"
      "state' = (AddSelection state sundayDinner)
          \<lparr>CurrentWeek := CurrentWeek (AddSelection state sundayDinner) @ picks\<rparr>"
      "fresh_picks (AddSelection state sundayDinner) picks"
      "\<forall>k<length variable_days. picks ! k \<in> set (category_slice dinners (cs ! (0 + k)))"
    by blast
  have len: "length variable_days = 4" by (simp add: variable_days_def)
  have "\<forall>k<5. (sundayDinner # picks) ! k \<in> set (category_slice dinners ((''soup'' # cs) ! k))"
  proof (intro allI impI)
    fix k :: nat assume "k < 5"
    then show "(sundayDinner # picks) ! k \<in> set (category_slice dinners ((''soup'' # cs) ! k))"
      using d(1) p(5) len by (cases k) auto
  qed
  moreover have "state' = state\<lparr>CurrentWeek := CurrentWeek state @ sundayDinner # picks\<rparr>"
    using p(3) by (simp add: AddSelection_def)
  moreover have "sel = record_picks week_days (sundayDinner # picks) Map.empty"
    using p(2) by (simp add: week_days_def)
  moreover have "length (sundayDinner # picks) = 5" using p(1) len by simp
  ultimately show ?thesis
    using p(4) d(2) cs by (intro exI [of _ "sundayDinner # picks"] exI [of _ cs]) simp
qed

lemma draw_counting [simp]: "draw n (counting_draws m) = (m mod n, counting_draws (m + 1))"
  by (simp add: draw_def counting_draws_def)

lemma pickDinnerFromCategory_retry:
  assumes "PickRandomDinner dinners c r = Inr (x, r')" "IsAlreadySelected state (Name x)"
  shows "pickDinnerFromCategory dinners state c r = pickDinnerFromCategory dinners state c r'"
  using assms by (subst pickDinnerFromCategory.simps) simp

lemma pickDinnerFromCategory_return:
  assumes "PickRandomDinner dinners c r = Inr (x, r')" "\<not> IsAlreadySelected state (Name x)"
  shows "pickDinnerFromCategory dinners state c r = Some (Inr (x, r'))"
  using assms by (subst pickDinnerFromCategory.simps) simp

lemma pickDinnerFromCategory_panic:
  assumes "PickRandomDinner dinners c r = Inl e"
  shows "pickDinnerFromCategory dinners state c r = Some (Inl e)"
  using assms by (subst pickDinnerFromCategory.simps) simp

section \<open>Empty and exhausted categories\<close>

text \<open>
  The \<open>PickRandomDinner\<close> of the complete program checks the length first: on a category
  that is missing from the catalog or holds no dinner it stops with its own panic, the
  one that names the empty category.
\<close>

lemma PickRandomDinner_empty_category:
  assumes "Dinners dinners categoryName = None \<or> Dinners dinners categoryName = Some []"
  shows "PickRandomDinner dinners categoryName r = Inl (EmptyCategory categoryName)"
  using assms by (auto simp: PickRandomDinner_def category_slice_def)

text \<open>
  The copy of \<open>main.go\<close> reaches \<open>rand.Intn\<close> with 0 and stops there, with the panic
  of the library.
\<close>

lemma PickRandomDinner_main_go_empty_category:
  assumes "Dinners dinners categoryName = None \<or> Dinners dinners categoryName = Some []"
  shows "PickRandomDinner_main_go dinners categoryName r = Inl IntnInvalidArgument"
  using assms by (auto simp: PickRandomDinner_main_go_def category_slice_def Intn_def)

text \<open>
  Claim C4. On a catalog whose category "soup" holds no dinner, and on a category that
  the catalog does not have, the two copies of \<open>PickRandomDinner\<close> part: the one of the
  complete program fails with the empty-category error, the one of \<open>main.go\<close> with the
  panic of \<open>rand.Intn\<close> on the argument 0.
\<close>

theorem PickRandomDinner_main_go_unguarded:
  "category_slice no_soup_catalog ''soup'' = [] \<and>
   PickRandomDinner no_soup_catalog ''soup'' (counting_draws 0) = Inl (EmptyCategory ''soup'') \<and>
   PickRandomDinner_main_go no_soup_catalog ''soup'' (counting_draws 0) = Inl IntnInvalidArgument \<and>
   Dinners no_soup_catalog ''Salad'' = None \<and>
   PickRandomDinner no_soup_catalog ''Salad'' (counting_draws 0) = Inl (EmptyCategory ''Salad'') \<and>
   PickRandomDinner_main_go no_soup_catalog ''Salad'' (counting_draws 0) = Inl IntnInvalidArgument"
proof -
  have 1: "Dinners no_soup_catalog ''soup'' = Some []" by (simp add: no_soup_catalog_def)
  have 2: "Dinners no_soup_catalog ''Salad'' = None" by (simp add: no_soup_catalog_def)
  show ?thesis
    using 1 2 by (simp add: PickRandomDinner_empty_category PickRandomDinner_main_go_empty_category
        category_slice_def)
qed

text \<open>
  A category with one soup, served last week: every dinner of the category is already
  selected, and the loop of \<open>pickDinnerFromCategory\<close> is never left. No result is
  returned, neither a dinner nor an error.
\<close>

theorem pickDinnerFromCategory_exhausted_counterexample:
  "category_slice one_soup_catalog ''soup'' = [minestrone] \<and>
   IsAlreadySelected served_last_week (Name minestrone) \<and>
   pickDinnerFromCategory one_soup_catalog served_last_week ''soup'' (counting_draws 0) = None"
proof -
  have 1: "category_slice one_soup_catalog ''soup'' = [minestrone]"
    by (simp add: category_slice_def one_soup_catalog_def)
  have 2: "IsAlreadySelected served_last_week (Name minestrone)"
    by (simp add: IsAlreadySelected_def served_last_week_def)
  show ?thesis
    using 1 2 by (simp add: pickDinnerFromCategory_exhausted)
qed

text \<open>
  Claim C2, as the code has it. When every dinner of the requested category is already
  selected, \<open>pickDinnerFromCategory\<close> returns nothing if the category holds a dinner
  (the loop draws again for ever, whatever the random source delivers), and stops with
  the panic of the empty category if it holds none.
\<close>

theorem pickDinnerFromCategory_exhausted_never_returns:
  assumes "\<forall>x \<in> set (category_slice dinners category). IsAlreadySelected state (Name x)"
  shows "pickDinnerFromCategory dinners state category r =
           (if category_slice dinners category = [] then Some (Inl (EmptyCategory category)) else None)"
proof (cases "category_slice dinners category = []")
  case True
  then have "PickRandomDinner dinners category r = Inl (EmptyCategory category)"
    by (simp add: PickRandomDinner_Inl)
  then show ?thesis using True by (simp add: pickDinnerFromCategory_panic)
next
  case False
  then show ?thesis using assms by (simp add: pickDinnerFromCategory_exhausted)
qed

theorem pickDinnerFromCategory_exhausted_never_returns_witness:
  "IsAlreadySelected example_state (Name minestrone) \<and>
   pickDinnerFromCategory one_soup_catalog example_state ''soup'' (counting_draws 7) = None \<and>
   pickDinnerFromCategory one_soup_catalog example_state ''pasta'' (counting_draws 7)
     = Some (Inl (EmptyCategory ''pasta''))"
proof -
  have 1: "category_slice one_soup_catalog ''soup'' = [minestrone]"
    by (simp add: category_slice_def one_soup_catalog_def)
  have 2: "IsAlreadySelected example_state (Name minestrone)"
    by (simp add: IsAlreadySelected_def example_state_def)
  have 3: "category_slice one_soup_catalog ''pasta'' = []"
    by (simp add: category_slice_def one_soup_catalog_def)
  show ?thesis
    using 1 2 3
      pickDinnerFromCategory_exhausted_never_returns
        [of one_soup_catalog "''soup''" example_state "counting_draws 7"]
      pickDinnerFromCategory_exhausted_never_returns
        [of one_soup_catalog "''pasta''" example_state "counting_draws 7"]
    by simp
qed

section \<open>No repeats\<close>

lemma draw_draws_of [simp]:
  "draw n (draws_of (x # xs)) = (x mod n, draws_of xs)"
  "draw n (draws_of []) = (0, draws_of [])"
  by (auto simp: draw_def draws_of_def)

lemma record_picks_lookup:
  assumes "length picks = length days" "distinct days"
  shows "record_picks days picks m day =
     (if day \<in> set days then map_of (zip days picks) day else m day)"
  using assms
proof (induction days arbitrary: picks m)
  case Nil
  then show ?case by simp
next
  case (Cons d days)
  then obtain x xs where picks: "picks = x # xs" by (cases picks) auto
  have IH: "record_picks days xs (m(d \<mapsto> x)) day =
     (if day \<in> set days then map_of (zip days xs) day else (m(d \<mapsto> x)) day)"
    using Cons.prems picks by (intro Cons.IH) simp_all
  have "d \<notin> set days" using Cons.prems by simp
  then show ?case unfolding picks using IH by auto
qed

lemma record_picks_Some:
  assumes "length picks = length days" "distinct days"
    and "record_picks days picks Map.empty day = Some x"
  shows "\<exists>k<length days. day = days ! k \<and> x = picks ! k"
proof -
  have "map_of (zip days picks) day = Some x"
    using assms by (simp add: record_picks_lookup split: if_splits)
  then have "(day, x) \<in> set (zip days picks)" by (rule map_of_SomeD)
  then show ?thesis using assms(1) by (auto simp: in_set_zip)
qed

lemma record_picks_nth:
  assumes "length picks = length days" "distinct days" "k < length days"
  shows "record_picks days picks m (days ! k) = Some (picks ! k)"
proof -
  have "map_of (zip days picks) (days ! k) = Some (picks ! k)"
    using assms by (intro map_of_is_SomeI) (auto simp: in_set_zip)
  then show ?thesis using assms by (simp add: record_picks_lookup)
qed

lemma week_days_distinct: "distinct week_days" "length week_days = 5"
  by (simp_all add: week_days_def variable_days_def)

text \<open>
  Claim C1. Whenever \<open>SelectWeeklyDinners\<close> returns its assignment, the dinners of two
  different days have different names, and no assigned dinner has the name of a dinner
  that \<open>PreviousWeek\<close> held when the run started.
\<close>

theorem SelectWeeklyDinners_no_repeat:
  assumes "SelectWeeklyDinners dinners state r = Some (Inr (sel, state', r'))"
  shows "(\<forall>d1 d2 x y. sel d1 = Some x \<and> sel d2 = Some y \<and> d1 \<noteq> d2 \<longrightarrow> Name x \<noteq> Name y) \<and>
         (\<forall>d x. sel d = Some x \<longrightarrow> \<not> name_in (PreviousWeek state) (Name x))"
proof -
  from SelectWeeklyDinners_result [OF assms] obtain picks where
    p: "length picks = 5" "sel = record_picks week_days picks Map.empty" "fresh_picks state picks"
    by blast
  from fresh_picks_names [OF p(3)] have
    dist: "distinct (map Name picks)"
    and prev: "\<forall>x \<in> set picks. Name x \<notin> Name ` set (PreviousWeek state)"
    by simp_all
  have len: "length picks = length week_days" using p(1) week_days_distinct(2) by simp
  have look: "\<exists>k<5. d = week_days ! k \<and> x = picks ! k" if "sel d = Some x" for d x
    using record_picks_Some [OF len week_days_distinct(1), of d x] that p(2)
    by (simp add: week_days_distinct(2))
  have "Name x \<noteq> Name y" if "sel d1 = Some x" "sel d2 = Some y" "d1 \<noteq> d2" for d1 d2 x y
  proof -
    from look [OF that(1)] obtain k1 where k1: "k1 < 5" "d1 = week_days ! k1" "x = picks ! k1" by blast
    from look [OF that(2)] obtain k2 where k2: "k2 < 5" "d2 = week_days ! k2" "y = picks ! k2" by blast
    have "k1 \<noteq> k2" using that(3) k1(2) k2(2) by auto
    then have "map Name picks ! k1 \<noteq> map Name picks ! k2"
      using dist k1(1) k2(1) p(1) by (auto simp: distinct_conv_nth)
    then show ?thesis using k1 k2 p(1) by simp
  qed
  moreover have "\<not> name_in (PreviousWeek state) (Name x)" if "sel d = Some x" for d x
  proof -
    from look [OF that] obtain k where "k < 5" "x = picks ! k" by blast
    then have "x \<in> set picks" using p(1) by simp
    then show ?thesis using prev by (simp add: name_in_iff)
  qed
  ultimately show ?thesis by blast
qed

subsection \<open>A run on the example catalog\<close>

lemma category_slice_example:
  "category_slice example_catalog ''soup'' = [minestrone, pho]"
  "category_slice example_catalog ''noodles-rice'' = [ramen, fried_rice]"
  "category_slice example_catalog ''pasta'' = [lasagna]"
  "category_slice example_catalog ''bread-y'' = [pizza]"
  "category_slice example_catalog ''Salad'' = [caesar]"
  by (simp_all add: category_slice_def example_catalog_def)

lemma dinner_names:
  "Name minestrone = ''Minestrone''" "Name pho = ''Pho''" "Name ramen = ''Ramen''"
  "Name fried_rice = ''Fried Rice''" "Name lasagna = ''Lasagna''" "Name pizza = ''Pizza''"
  "Name caesar = ''Caesar''"
  by (simp_all add: minestrone_def pho_def ramen_def fried_rice_def lasagna_def pizza_def caesar_def)

lemma PickRandomDinner_draws_of:
  assumes "category_slice dinners c = ys" "ys \<noteq> []"
  shows "PickRandomDinner dinners c (draws_of (x # xs)) = Inr (ys ! (x mod length ys), draws_of xs)"
  using assms by (simp add: PickRandomDinner_def Intn_def Let_def)

lemma pick_retry_draws_of:
  assumes "category_slice dinners c = ys" "ys \<noteq> []"
    "IsAlreadySelected state (Name (ys ! (x mod length ys)))"
  shows "pickDinnerFromCategory dinners state c (draws_of (x # xs))
     = pickDinnerFromCategory dinners state c (draws_of xs)"
  using assms
  by (intro pickDinnerFromCategory_retry [where x = "ys ! (x mod length ys)"])
    (simp_all add: PickRandomDinner_draws_of)

lemma pick_return_draws_of:
  assumes "category_slice dinners c = ys" "ys \<noteq> []"
    "\<not> IsAlreadySelected state (Name (ys ! (x mod length ys)))"
  shows "pickDinnerFromCategory dinners state c (draws_of (x # xs))
     = Some (Inr (ys ! (x mod length ys), draws_of xs))"
  using assms
  by (intro pickDinnerFromCategory_return) (simp_all add: PickRandomDinner_draws_of)

lemma mod_two_numeral: "numeral v mod Suc (Suc 0) = (numeral v mod 2 :: nat)"
  by (simp add: numeral_2_eq_2)

lemma example_soup_pick:
  "pickDinnerFromCategory example_catalog example_state ''soup'' (draws_of [0, 3, 2, 3, 4, 5, 6, 7, 8])
     = Some (Inr (pho, draws_of [2, 3, 4, 5, 6, 7, 8]))"
proof -
  have "pickDinnerFromCategory example_catalog example_state ''soup'' (draws_of [0, 3, 2, 3, 4, 5, 6, 7, 8])
     = pickDinnerFromCategory example_catalog example_state ''soup'' (draws_of [3, 2, 3, 4, 5, 6, 7, 8])"
    by (rule pick_retry_draws_of [OF category_slice_example(1)])
      (simp_all add: IsAlreadySelected_def example_state_def)
  also have "\<dots> = Some (Inr ([minestrone, pho] ! (3 mod length [minestrone, pho]), draws_of [2, 3, 4, 5, 6, 7, 8]))"
    by (rule pick_return_draws_of [OF category_slice_example(1)])
      (simp_all add: IsAlreadySelected_def example_state_def dinner_names mod_two_numeral)
  finally show ?thesis by (simp add: mod_two_numeral)
qed

lemma Shuffle_four:
  "Shuffle 4 xs r =
     (case draw 4 r of (j1, r1) \<Rightarrow>
      case draw 3 r1 of (j2, r2) \<Rightarrow>
      case draw 2 r2 of (j3, r3) \<Rightarrow> (swap 1 j3 (swap 2 j2 (swap 3 j1 xs)), r3))"
proof -
  have "Shuffle 4 xs r = shuffle_from (Suc (Suc (Suc 0))) xs r"
    by (simp add: Shuffle_def numeral_3_eq_3)
  also have "\<dots> = (case draw 4 r of (j1, r1) \<Rightarrow>
      case draw 3 r1 of (j2, r2) \<Rightarrow>
      case draw 2 r2 of (j3, r3) \<Rightarrow> (swap 1 j3 (swap 2 j2 (swap 3 j1 xs)), r3))"
    by (simp add: numeral_eq_Suc split: prod.splits)
  finally show ?thesis .
qed

lemma example_shuffle:
  "Shuffle (length variable_categories) variable_categories (draws_of [2, 3, 4, 5, 6, 7, 8])
     = ([''pasta'', ''Salad'', ''noodles-rice'', ''bread-y''], draws_of [5, 6, 7, 8])"
proof -
  have "length variable_categories = 4" by (simp add: variable_categories_def)
  then show ?thesis
    by (simp add: Shuffle_four) (simp add: variable_categories_def swap_def)
qed

lemma example_run:
  "SelectWeeklyDinners example_catalog example_state example_draws
     = Some (Inr (example_selections, example_state_after, draws_of []))"
proof -
  have "select_days example_catalog [''pasta'', ''Salad'', ''noodles-rice'', ''bread-y''] 0 variable_days
      (AddSelection example_state pho) [''Sunday'' \<mapsto> pho] (draws_of [5, 6, 7, 8])
    = Some (Inr (example_selections, example_state_after, draws_of []))"
    by (simp add: mod_two_numeral variable_days_def pick_return_draws_of category_slice_example dinner_names
        IsAlreadySelected_def AddSelection_def
        example_state_def example_selections_def example_state_after_def)
  then show ?thesis
    by (simp add: SelectWeeklyDinners_def example_draws_def example_soup_pick example_shuffle)
qed

theorem SelectWeeklyDinners_no_repeat_witness:
  "SelectWeeklyDinners example_catalog example_state example_draws
     = Some (Inr (example_selections, example_state_after, draws_of [])) \<and>
   example_selections ''Sunday'' = Some pho \<and>
   example_selections ''Monday'' = Some lasagna \<and>
   Name pho \<noteq> Name lasagna \<and> \<not> name_in (PreviousWeek example_state) (Name pho)"
proof -
  have 1: "example_selections ''Sunday'' = Some pho" "example_selections ''Monday'' = Some lasagna"
    by (simp_all add: example_selections_def)
  have 2: "''Sunday'' \<noteq> ''Monday''" by simp
  from SelectWeeklyDinners_no_repeat [OF example_run] 1 2 show ?thesis
    using example_run by blast
qed

section \<open>The shape of the week\<close>

lemma fair_tail: "fair r \<Longrightarrow> fair (\<lambda>k. r (Suc k))"
  unfolding fair_def
proof (intro allI impI)
  fix n i p :: nat
  assume f: "\<forall>n i p. i < n \<longrightarrow> (\<exists>k\<ge>p. r k mod n = i)" and "i < n"
  then obtain k where "Suc p \<le> k" "r k mod n = i" by blast
  then show "\<exists>k\<ge>p. r (Suc k) mod n = i"
    by (intro exI [of _ "k - 1"]) auto
qed

lemma fair_counting: "fair (counting_draws m)"
  unfolding fair_def counting_draws_def
proof (intro allI impI)
  fix n i p :: nat
  assume "i < n"
  obtain q where q: "q = (m + p) div n + 1" by blast
  have ge: "m + p \<le> q * n"
  proof -
    have "(m + p) mod n < n" using \<open>i < n\<close> by simp
    moreover have "m + p = (m + p) div n * n + (m + p) mod n" by simp
    ultimately have "m + p \<le> (m + p) div n * n + n" by linarith
    then show ?thesis by (simp add: q)
  qed
  define k where "k = q * n + i - m"
  have "p \<le> k" using ge by (simp add: k_def)
  moreover have "(m + k) mod n = i" using ge \<open>i < n\<close> by (simp add: k_def)
  ultimately show "\<exists>k\<ge>p. (m + k) mod n = i" by blast
qed

lemma pickDinnerFromCategory_hit:
  assumes "r k mod length (category_slice dinners c) = i" "i < length (category_slice dinners c)"
    "\<not> IsAlreadySelected state (Name (category_slice dinners c ! i))"
    "fair r"
  shows "\<exists>x r'. pickDinnerFromCategory dinners state c r = Some (Inr (x, r')) \<and> fair r'"
  using assms
proof (induction k arbitrary: r)
  case 0
  let ?xs = "category_slice dinners c"
  have ne: "?xs \<noteq> []" using 0(2) by auto
  have "pickDinnerFromCategory dinners state c r = Some (Inr (?xs ! i, \<lambda>k. r (Suc k)))"
    using 0(1,3) by (intro pickDinnerFromCategory_return) (simp_all add: PickRandomDinner_nonempty [OF ne])
  then show ?case using fair_tail [OF 0(4)] by blast
next
  case (Suc k)
  let ?xs = "category_slice dinners c"
  let ?x = "?xs ! (r 0 mod length ?xs)"
  let ?r = "\<lambda>k. r (Suc k)"
  have ne: "?xs \<noteq> []" using Suc.prems(2) by auto
  have pick: "PickRandomDinner dinners c r = Inr (?x, ?r)"
    by (rule PickRandomDinner_nonempty [OF ne])
  show ?case
  proof (cases "IsAlreadySelected state (Name ?x)")
    case True
    have "pickDinnerFromCategory dinners state c r = pickDinnerFromCategory dinners state c ?r"
      using pick True by (rule pickDinnerFromCategory_retry)
    moreover have "\<exists>x r'. pickDinnerFromCategory dinners state c ?r = Some (Inr (x, r')) \<and> fair r'"
      using Suc.prems by (intro Suc.IH) (simp_all add: fair_tail)
    ultimately show ?thesis by simp
  next
    case False
    have "pickDinnerFromCategory dinners state c r = Some (Inr (?x, ?r))"
      using pick False by (rule pickDinnerFromCategory_return)
    then show ?thesis using fair_tail [OF Suc.prems(4)] by blast
  qed
qed

lemma pickDinnerFromCategory_returns:
  assumes "\<exists>x \<in> set (category_slice dinners c). \<not> IsAlreadySelected state (Name x)" "fair r"
  shows "\<exists>x r'. pickDinnerFromCategory dinners state c r = Some (Inr (x, r')) \<and> fair r' \<and>
           x \<in> set (category_slice dinners c) \<and> \<not> IsAlreadySelected state (Name x)"
proof -
  from assms(1) obtain i where i: "i < length (category_slice dinners c)"
    "\<not> IsAlreadySelected state (Name (category_slice dinners c ! i))"
    by (auto simp: in_set_conv_nth)
  from assms(2) i(1) obtain k where "r k mod length (category_slice dinners c) = i"
    unfolding fair_def by blast
  from pickDinnerFromCategory_hit [OF this i assms(2)] obtain x r' where
    p: "pickDinnerFromCategory dinners state c r = Some (Inr (x, r'))" "fair r'" by blast
  from pickDinnerFromCategory_Some [OF p(1)] p show ?thesis by (auto simp: pick_post_def)
qed

lemma shuffle_from_fair: "fair r \<Longrightarrow> fair (snd (shuffle_from i xs r))"
proof (induction i arbitrary: xs r)
  case 0
  then show ?case by simp
next
  case (Suc i)
  then show ?case by (simp add: draw_def fair_tail)
qed

lemma IsAlreadySelected_AddSelection:
  "IsAlreadySelected (AddSelection st x) n \<longleftrightarrow> IsAlreadySelected st n \<or> n = Name x"
  by (auto simp: IsAlreadySelected_iff AddSelection_def)

lemma stocked_head:
  assumes "stocked dinners cats i (Suc n) st"
  shows "\<exists>x \<in> set (category_slice dinners (cats ! i)). \<not> IsAlreadySelected st (Name x)"
  using assms unfolding stocked_def by (metis add.right_neutral zero_less_Suc)

lemma stocked_step:
  assumes s: "stocked dinners cats i (Suc n) st" and y: "y \<in> set (category_slice dinners (cats ! i))"
  shows "stocked dinners cats (Suc i) n (AddSelection st y)"
  unfolding stocked_def
proof (intro allI impI)
  fix k assume k: "k < n"
  from s k obtain x where x: "x \<in> set (category_slice dinners (cats ! (i + Suc k)))"
    "\<not> IsAlreadySelected st (Name x)"
    "\<forall>k'<Suc n. k' \<noteq> Suc k \<longrightarrow> Name x \<notin> Name ` set (category_slice dinners (cats ! (i + k')))"
    unfolding stocked_def by (metis Suc_less_eq)
  from x(3) have "Name x \<notin> Name ` set (category_slice dinners (cats ! (i + 0)))"
    by (metis zero_less_Suc Zero_not_Suc)
  then have "Name x \<noteq> Name y" using y by auto
  then have 1: "\<not> IsAlreadySelected (AddSelection st y) (Name x)"
    using x(2) by (simp add: IsAlreadySelected_AddSelection)
  have 2: "\<forall>k'<n. k' \<noteq> k \<longrightarrow> Name x \<notin> Name ` set (category_slice dinners (cats ! (Suc i + k')))"
  proof (intro allI impI)
    fix k' assume "k' < n" "k' \<noteq> k"
    then have "Suc k' < Suc n" "Suc k' \<noteq> Suc k" by simp_all
    with x(3) have "Name x \<notin> Name ` set (category_slice dinners (cats ! (i + Suc k')))" by blast
    then show "Name x \<notin> Name ` set (category_slice dinners (cats ! (Suc i + k')))" by simp
  qed
  from x(1) have "x \<in> set (category_slice dinners (cats ! (Suc i + k)))" by simp
  with 1 2 show "\<exists>x \<in> set (category_slice dinners (cats ! (Suc i + k))).
      \<not> IsAlreadySelected (AddSelection st y) (Name x) \<and>
      (\<forall>k'<n. k' \<noteq> k \<longrightarrow> Name x \<notin> Name ` set (category_slice dinners (cats ! (Suc i + k'))))"
    by blast
qed

lemma select_days_returns:
  assumes "stocked dinners cats i (length days) st" "fair r"
  shows "\<exists>sel' st' r'. select_days dinners cats i days st sel r = Some (Inr (sel', st', r'))"
  using assms
proof (induction days arbitrary: i st sel r)
  case Nil
  then show ?case by simp
next
  case (Cons day days)
  from Cons.prems(1) have s: "stocked dinners cats i (Suc (length days)) st" by simp
  from pickDinnerFromCategory_returns [OF stocked_head [OF s] Cons.prems(2)] obtain x r1 where
    p: "pickDinnerFromCategory dinners st (cats ! i) r = Some (Inr (x, r1))" "fair r1"
      "x \<in> set (category_slice dinners (cats ! i))"
    by blast
  from Cons.IH [OF stocked_step [OF s p(3)] p(2)] obtain sel' st' r' where
    "select_days dinners cats (Suc i) days (AddSelection st x) (sel(day \<mapsto> x)) r1
       = Some (Inr (sel', st', r'))"
    by blast
  then show ?case using p(1) by simp
qed

lemma variable_categories_distinct:
  "distinct variable_categories" "''soup'' \<notin> set variable_categories" "length variable_categories = 4"
  by (simp_all add: variable_categories_def)

lemma SelectWeeklyDinners_returns:
  assumes suff: "sufficient_unused dinners state" and fair: "fair r"
  shows "\<exists>sel state' r'. SelectWeeklyDinners dinners state r = Some (Inr (sel, state', r'))"
proof -
  let ?all = "''soup'' # variable_categories"
  from suff have "owns_unused dinners state ?all ''soup''"
    unfolding sufficient_unused_def by simp
  then have "\<exists>x \<in> set (category_slice dinners ''soup''). \<not> IsAlreadySelected state (Name x)"
    unfolding owns_unused_def by blast
  from pickDinnerFromCategory_returns [OF this fair] obtain x0 r1 where
    p: "pickDinnerFromCategory dinners state ''soup'' r = Some (Inr (x0, r1))" "fair r1"
      "x0 \<in> set (category_slice dinners ''soup'')"
    by blast
  obtain cs r2 where sh: "Shuffle (length variable_categories) variable_categories r1 = (cs, r2)"
    by (cases "Shuffle (length variable_categories) variable_categories r1")
  have cs: "mset cs = mset variable_categories"
    using Shuffle_mset [of "length variable_categories" variable_categories r1] sh
    by (simp add: variable_categories_def)
  have r2: "fair r2"
    using shuffle_from_fair [OF p(2), of "length variable_categories - 1" variable_categories] sh
    by (simp add: Shuffle_def)
  have dist: "distinct cs" using cs variable_categories_distinct(1) by (metis mset_eq_imp_distinct_iff)
  have set_cs: "set cs = set variable_categories" using cs by (rule mset_eq_setD)
  have len_cs: "length cs = 4" using cs variable_categories_distinct(3) by (metis size_mset)
  have "stocked dinners cs 0 (length variable_days) (AddSelection state x0)"
    unfolding stocked_def
  proof (intro allI impI)
    fix k assume "k < length variable_days"
    then have k: "k < length cs" using len_cs by (simp add: variable_days_def)
    then have mem: "cs ! k \<in> set variable_categories" using set_cs nth_mem by blast
    then have "owns_unused dinners state ?all (cs ! k)"
      using suff unfolding sufficient_unused_def by simp
    then obtain x where x: "x \<in> set (category_slice dinners (cs ! k))"
      "\<not> IsAlreadySelected state (Name x)"
      "\<forall>c' \<in> set ?all. c' \<noteq> cs ! k \<longrightarrow> Name x \<notin> Name ` set (category_slice dinners c')"
      unfolding owns_unused_def by blast
    have "''soup'' \<noteq> cs ! k" using mem variable_categories_distinct(2) by auto
    then have "Name x \<notin> Name ` set (category_slice dinners ''soup'')" using x(3) by simp
    then have "Name x \<noteq> Name x0" using p(3) by auto
    then have 1: "\<not> IsAlreadySelected (AddSelection state x0) (Name x)"
      using x(2) by (simp add: IsAlreadySelected_AddSelection)
    have 2: "\<forall>k'<length variable_days. k' \<noteq> k \<longrightarrow>
        Name x \<notin> Name ` set (category_slice dinners (cs ! (0 + k')))"
    proof (intro allI impI)
      fix k' assume "k' < length variable_days" "k' \<noteq> k"
      then have k': "k' < length cs" using len_cs by (simp add: variable_days_def)
      then have "cs ! k' \<noteq> cs ! k" using dist k \<open>k' \<noteq> k\<close> by (simp add: nth_eq_iff_index_eq)
      moreover have "cs ! k' \<in> set ?all" using set_cs k' nth_mem by fastforce
      ultimately have "Name x \<notin> Name ` set (category_slice dinners (cs ! k'))"
        using x(3) by blast
      then show "Name x \<notin> Name ` set (category_slice dinners (cs ! (0 + k')))" by simp
    qed
    from x(1) 1 2 show "\<exists>x \<in> set (category_slice dinners (cs ! (0 + k))).
        \<not> IsAlreadySelected (AddSelection state x0) (Name x) \<and>
        (\<forall>k'<length variable_days. k' \<noteq> k \<longrightarrow>
           Name x \<notin> Name ` set (category_slice dinners (cs ! (0 + k'))))"
      by auto
  qed
  from select_days_returns [OF this r2] obtain sel st' r' where
    "select_days dinners cs 0 variable_days (AddSelection state x0) [''Sunday'' \<mapsto> x0] r2
       = Some (Inr (sel, st', r'))"
    by blast
  then show ?thesis using p(1) sh by (simp add: SelectWeeklyDinners_def)
qed

lemma record_picks_dom:
  assumes "length picks = length days" "distinct days"
  shows "dom (record_picks days picks Map.empty) = set days"
proof
  show "dom (record_picks days picks Map.empty) \<subseteq> set days"
    using assms by (auto simp: record_picks_lookup split: if_splits)
  show "set days \<subseteq> dom (record_picks days picks Map.empty)"
  proof
    fix day assume "day \<in> set days"
    then obtain k where "k < length days" "day = days ! k" by (auto simp: in_set_conv_nth)
    then show "day \<in> dom (record_picks days picks Map.empty)"
      using record_picks_nth [OF assms, of k Map.empty] by auto
  qed
qed

text \<open>
  Claim C3. On a catalog with sufficient unused dinners and a fair random source,
  \<open>SelectWeeklyDinners\<close> returns an assignment. Every assignment it returns has
  exactly the five keys Sunday to Thursday; Sunday's dinner is from the category "soup";
  and the days Monday to Thursday draw, in this order, from the entries of a permutation
  of the four variable categories, so that the five dinners come from five different
  categories.
\<close>

theorem SelectWeeklyDinners_assignment:
  "(sufficient_unused dinners state \<and> fair r \<longrightarrow>
      (\<exists>sel state' r'. SelectWeeklyDinners dinners state r = Some (Inr (sel, state', r')))) \<and>
   (\<forall>sel state' r'. SelectWeeklyDinners dinners state r = Some (Inr (sel, state', r')) \<longrightarrow>
      dom sel = {''Sunday'', ''Monday'', ''Tuesday'', ''Wednesday'', ''Thursday''} \<and>
      card (dom sel) = 5 \<and>
      (\<exists>x \<in> set (category_slice dinners ''soup''). sel ''Sunday'' = Some x) \<and>
      (\<exists>cs. mset cs = mset variable_categories \<and> distinct (''soup'' # cs) \<and>
         (\<forall>k<4. \<exists>x \<in> set (category_slice dinners (cs ! k)). sel (variable_days ! k) = Some x)))"
proof (intro conjI allI impI)
  assume "sufficient_unused dinners state \<and> fair r"
  then show "\<exists>sel state' r'. SelectWeeklyDinners dinners state r = Some (Inr (sel, state', r'))"
    by (simp add: SelectWeeklyDinners_returns)
next
  fix sel state' r'
  assume run: "SelectWeeklyDinners dinners state r = Some (Inr (sel, state', r'))"
  from SelectWeeklyDinners_result [OF run] obtain picks cs where
    p: "length picks = 5" "sel = record_picks week_days picks Map.empty"
      "mset cs = mset variable_categories"
      "\<forall>k<5. picks ! k \<in> set (category_slice dinners ((''soup'' # cs) ! k))"
    by blast
  have len: "length picks = length week_days" using p(1) week_days_distinct(2) by simp
  have nth: "sel (week_days ! k) = Some (picks ! k)" if "k < 5" for k
    using record_picks_nth [OF len week_days_distinct(1), of k Map.empty] that p(2)
    by (simp add: week_days_distinct(2))
  have dom: "dom sel = set week_days"
    unfolding p(2) using len week_days_distinct(1) by (rule record_picks_dom)
  show "dom sel = {''Sunday'', ''Monday'', ''Tuesday'', ''Wednesday'', ''Thursday''}"
    unfolding dom by (simp add: week_days_def variable_days_def)
  show "card (dom sel) = 5"
    unfolding dom using week_days_distinct by (simp add: distinct_card)
  show "\<exists>x \<in> set (category_slice dinners ''soup''). sel ''Sunday'' = Some x"
  proof -
    have "sel (week_days ! 0) = Some (picks ! 0)" by (rule nth) simp
    moreover have "picks ! 0 \<in> set (category_slice dinners ((''soup'' # cs) ! 0))"
      using p(4) [rule_format, of 0] by simp
    ultimately show ?thesis by (simp add: week_days_def)
  qed
  show "\<exists>cs. mset cs = mset variable_categories \<and> distinct (''soup'' # cs) \<and>
         (\<forall>k<4. \<exists>x \<in> set (category_slice dinners (cs ! k)). sel (variable_days ! k) = Some x)"
  proof (intro exI [of _ cs] conjI allI impI)
    show "mset cs = mset variable_categories" by (rule p(3))
    have "distinct cs" using p(3) variable_categories_distinct(1) by (metis mset_eq_imp_distinct_iff)
    moreover have "set cs = set variable_categories" using p(3) by (rule mset_eq_setD)
    ultimately show "distinct (''soup'' # cs)" using variable_categories_distinct(2) by simp
  next
    fix k :: nat assume k: "k < 4"
    then have "sel (week_days ! Suc k) = Some (picks ! Suc k)" by (intro nth) simp
    moreover have "picks ! Suc k \<in> set (category_slice dinners ((''soup'' # cs) ! Suc k))"
      using p(4) [rule_format, of "Suc k"] k by simp
    ultimately show "\<exists>x \<in> set (category_slice dinners (cs ! k)). sel (variable_days ! k) = Some x"
      by (simp add: week_days_def)
  qed
qed

lemma example_sufficient: "sufficient_unused example_catalog example_state"
  unfolding sufficient_unused_def owns_unused_def variable_categories_def
  by (simp add: category_slice_example dinner_names IsAlreadySelected_def example_state_def)

theorem SelectWeeklyDinners_assignment_witness:
  "sufficient_unused example_catalog example_state \<and> fair (counting_draws 0) \<and>
   (\<exists>sel state' r'. SelectWeeklyDinners example_catalog example_state (counting_draws 0)
       = Some (Inr (sel, state', r'))) \<and>
   SelectWeeklyDinners example_catalog example_state example_draws
     = Some (Inr (example_selections, example_state_after, draws_of [])) \<and>
   dom example_selections = {''Sunday'', ''Monday'', ''Tuesday'', ''Wednesday'', ''Thursday''} \<and>
   card (dom example_selections) = 5 \<and>
   (\<exists>x \<in> set (category_slice example_catalog ''soup''). example_selections ''Sunday'' = Some x)"
proof -
  note a = SelectWeeklyDinners_assignment [of example_catalog example_state "counting_draws 0"]
  note b = SelectWeeklyDinners_assignment [of example_catalog example_state example_draws]
  have 1: "\<exists>sel state' r'. SelectWeeklyDinners example_catalog example_state (counting_draws 0)
       = Some (Inr (sel, state', r'))"
    using a [THEN conjunct1] example_sufficient fair_counting [of 0] by simp
  have 2: "dom example_selections = {''Sunday'', ''Monday'', ''Tuesday'', ''Wednesday'', ''Thursday''} \<and>
      card (dom example_selections) = 5 \<and>
      (\<exists>x \<in> set (category_slice example_catalog ''soup''). example_selections ''Sunday'' = Some x)"
    using b [THEN conjunct2, rule_format, OF example_run] by simp
  show ?thesis
    using 1 2 example_sufficient fair_counting [of 0] example_run by simp
qed

section \<open>Unmarshalling what was marshalled\<close>

lemma key_matches_refl [simp]: "key_matches k k"
  by (simp add: key_matches_def)

lemma ascii_lower_simps:
  "ascii_lower CHR ''n'' = CHR ''n''" "ascii_lower CHR ''c'' = CHR ''c''"
  "ascii_lower CHR ''i'' = CHR ''i''" "ascii_lower CHR ''w'' = CHR ''w''"
  "ascii_lower CHR ''p'' = CHR ''p''" "ascii_lower CHR ''d'' = CHR ''d''"
  by (simp_all add: ascii_lower_def)

lemma key_matches_tags [simp]:
  "\<not> key_matches ''category'' ''name''"
  "\<not> key_matches ''ingredients'' ''name''"
  "\<not> key_matches ''ingredients'' ''category''"
  "\<not> key_matches ''current_week'' ''week_start''"
  "\<not> key_matches ''previous_week'' ''week_start''"
  "\<not> key_matches ''previous_week'' ''current_week''"
  by (simp_all add: key_matches_def ascii_lower_simps)

lemma those_map_decode:
  assumes "\<And>x. x \<in> set xs \<Longrightarrow> f (g x) = Some x"
  shows "those (map f (map g xs)) = Some xs"
  using assms by (induction xs) simp_all

lemma decode_strings_round_trip:
  assumes "list_all (\<lambda>i. coerce_utf8 L i = i) xs"
  shows "decode_slice (decode_string []) (JArray (map (\<lambda>i. JString (coerce_utf8 L i)) xs)) = Some xs"
proof -
  have "those (map (decode_string []) (map (\<lambda>i. JString (coerce_utf8 L i)) xs)) = Some xs"
    using assms by (intro those_map_decode) (simp add: decode_string_def list_all_iff)
  then show ?thesis by (simp add: decode_slice_def)
qed

lemma decode_Dinner_round_trip:
  assumes "utf8_Dinner L d"
  shows "decode_Dinner cur (encode_Dinner L d) = Some d"
  using assms
  by (simp add: decode_Dinner_def encode_Dinner_def Dinner_field_def decode_string_def
      decode_strings_round_trip utf8_Dinner_def)

lemma decode_Dinners_round_trip:
  assumes "list_all (utf8_Dinner L) ds"
  shows "decode_slice (decode_Dinner zero_Dinner) (JArray (map (encode_Dinner L) ds)) = Some ds"
proof -
  have "those (map (decode_Dinner zero_Dinner) (map (encode_Dinner L) ds)) = Some ds"
    using assms by (intro those_map_decode) (simp add: decode_Dinner_round_trip list_all_iff)
  then show ?thesis by (simp add: decode_slice_def)
qed

lemma Unmarshal_MarshalIndent:
  assumes "time_round_trip L" "utf8_state L s" "MarshalIndent_WeekState L s = Some c"
  shows "Unmarshal_WeekState L c = Some s"
proof -
  from assms(3) obtain stamp where stamp: "time_text L (WeekStart s) = Some stamp"
    and c: "c = Document (JObject
            [(''week_start'', JString stamp),
             (''current_week'', JArray (map (encode_Dinner L) (CurrentWeek s))),
             (''previous_week'', JArray (map (encode_Dinner L) (PreviousWeek s)))])"
    by (auto simp: MarshalIndent_WeekState_def split: option.splits)
  have t: "text_time L stamp = Some (WeekStart s)"
    using assms(1) stamp unfolding time_round_trip_def by blast
  show ?thesis
    using assms(2) t unfolding c
    by (simp add: Unmarshal_WeekState_def WeekState_field_def decode_time_def
        decode_Dinners_round_trip utf8_state_def zero_WeekState_def)
qed

section \<open>Saving and loading\<close>

lemma SaveState_success:
  "SaveState L s w = (Inr (), w') \<longleftrightarrow>
     (\<exists>c. MarshalIndent_WeekState L s = Some c \<and> fault w = None \<and>
          w' = w\<lparr>files := (files w)(StateFileName \<mapsto> Readable c)\<rparr>)"
  by (auto simp: SaveState_def WriteFile_def split: option.splits write_fault.splits)

lemma LoadState_reads_saved:
  assumes "time_round_trip L" "utf8_state L s" "SaveState L s w = (Inr (), w')"
  shows "LoadState L now w' = (Inr s, w')"
proof -
  from assms(3) obtain c where c: "MarshalIndent_WeekState L s = Some c"
    and w': "w' = w\<lparr>files := (files w)(StateFileName \<mapsto> Readable c)\<rparr>"
    by (auto simp: SaveState_success)
  have "Unmarshal_WeekState L c = Some s"
    using assms(1,2) c by (rule Unmarshal_MarshalIndent)
  then show ?thesis
    by (simp add: LoadState_def Stat_IsNotExist_def ReadFile_def w')
qed


lemma unary_round_trip: "time_round_trip unary_lib"
proof -
  have tw: "takeWhile (\<lambda>c. c = CHR ''d'') (replicate a CHR ''d'' @ replicate b CHR ''n'') = replicate a CHR ''d''"
    for a b by (induction a) (simp_all add: takeWhile_eq_Nil_iff)
  have dw: "dropWhile (\<lambda>c. c = CHR ''d'') (replicate a CHR ''d'' @ replicate b CHR ''n'') = replicate b CHR ''n''"
    for a b by (induction a) (simp_all add: dropWhile_eq_self_iff hd_replicate)
  show ?thesis
    unfolding time_round_trip_def unary_lib_def
    by (auto simp: tw dw split: if_splits)
qed

lemma unary_coerce [simp]: "coerce_utf8 unary_lib s = s"
  by (simp add: unary_lib_def)

lemma unary_utf8_Dinner [simp]: "utf8_Dinner unary_lib d"
  by (simp add: utf8_Dinner_def list_all_iff)

lemma unary_utf8_state [simp]: "utf8_state unary_lib s"
  by (simp add: utf8_state_def list_all_iff)

lemma unary_marshal:
  assumes "0 \<le> unix_sec (WeekStart s)" "location (WeekStart s) = utc"
  shows "\<exists>c. MarshalIndent_WeekState unary_lib s = Some c"
  using assms by (simp add: MarshalIndent_WeekState_def unary_lib_def)

lemma unary_save:
  assumes "0 \<le> unix_sec (WeekStart s)" "location (WeekStart s) = utc" "fault w = None"
  shows "fst (SaveState unary_lib s w) = Inr ()"
proof -
  from unary_marshal [OF assms(1,2)] obtain c where "MarshalIndent_WeekState unary_lib s = Some c"
    by blast
  then show ?thesis using assms(3) by (simp add: SaveState_def WriteFile_def)
qed


section \<open>The run\<close>

lemma LoadDinners_world: "snd (LoadDinners filename w) = w"
  by (simp add: LoadDinners_def ReadFile_def split: option.splits disk_file.splits)

lemma ReadFile_world: "snd (ReadFile name w) = w"
  by (simp add: ReadFile_def split: option.splits disk_file.splits)

lemma LoadState_world: "snd (LoadState L now w) = w"
proof (cases "files w StateFileName = None")
  case True
  then show ?thesis by (simp add: LoadState_def Stat_IsNotExist_def)
next
  case False
  obtain c w2 where c: "ReadFile StateFileName w = (c, w2)" by (cases "ReadFile StateFileName w")
  then have w2: "w2 = w" using ReadFile_world [of StateFileName w] by simp
  have ne: "(files w StateFileName = None) = False" using False by blast
  show ?thesis
    unfolding LoadState_def Stat_IsNotExist_def ne
    by (simp add: c w2 split: option.splits)
qed

lemma main_cases:
  assumes "main L now now2 r w = Some (out, w')"
  shows "(\<exists>e. LoadDinners ''dinners.json'' w = (Inl e, w) \<and> out = ErrorLoadingDinners e \<and> w' = w) \<or>
         (\<exists>dinners e. LoadDinners ''dinners.json'' w = (Inr dinners, w) \<and>
             LoadState L now w = (Inl e, w) \<and> out = ErrorLoadingState e \<and> w' = w) \<or>
         (\<exists>dinners state e. LoadDinners ''dinners.json'' w = (Inr dinners, w) \<and>
             LoadState L now w = (Inr state, w) \<and>
             SelectWeeklyDinners dinners (CheckNewWeek now2 state) r = Some (Inl e) \<and>
             out = Panicked e \<and> w' = w) \<or>
         (\<exists>dinners state sel state' r' e. LoadDinners ''dinners.json'' w = (Inr dinners, w) \<and>
             LoadState L now w = (Inr state, w) \<and>
             SelectWeeklyDinners dinners (CheckNewWeek now2 state) r = Some (Inr (sel, state', r')) \<and>
             SaveState L state' w = (Inl e, w') \<and> out = ErrorSavingState e) \<or>
         (\<exists>dinners state sel state' r'. LoadDinners ''dinners.json'' w = (Inr dinners, w) \<and>
             LoadState L now w = (Inr state, w) \<and>
             SelectWeeklyDinners dinners (CheckNewWeek now2 state) r = Some (Inr (sel, state', r')) \<and>
             SaveState L state' w = (Inr (), w') \<and> out = MenuPrinted sel)"
proof -
  obtain rd w1 where rd: "LoadDinners ''dinners.json'' w = (rd, w1)" by (cases "LoadDinners ''dinners.json'' w")
  have w1: "w1 = w" using LoadDinners_world [of "''dinners.json''" w] rd by simp
  show ?thesis
  proof (cases rd)
    case (Inl e)
    then show ?thesis using assms rd w1 by (simp add: main_def)
  next
    case (Inr dinners)
    obtain rs w2 where rs: "LoadState L now w = (rs, w2)" by (cases "LoadState L now w")
    have w2: "w2 = w" using LoadState_world [of L now w] rs by simp
    show ?thesis
    proof (cases rs)
      case (Inl e)
      then show ?thesis using assms rd w1 rs w2 Inr by (simp add: main_def)
    next
      case state: (Inr state)
      show ?thesis
      proof (cases "SelectWeeklyDinners dinners (CheckNewWeek now2 state) r")
        case None
        then show ?thesis using assms rd w1 rs w2 Inr state by (simp add: main_def)
      next
        case (Some res)
        show ?thesis
        proof (cases res)
          case (Inl e)
          then show ?thesis using assms rd w1 rs w2 Inr state Some by (simp add: main_def)
        next
          case sel: (Inr p)
          obtain sel state' r' where p: "p = (sel, state', r')" by (cases p)
          obtain u w3 where sv: "SaveState L state' w = (u, w3)" by (cases "SaveState L state' w")
          show ?thesis
          proof (cases u)
            case (Inl e)
            then show ?thesis
              using assms rd w1 rs w2 \<open>rd = Inr dinners\<close> state Some sel p sv by (simp add: main_def)
          next
            case (Inr x)
            then show ?thesis
              using assms rd w1 rs w2 \<open>rd = Inr dinners\<close> state Some sel p sv by (simp add: main_def)
          qed
        qed
      qed
    qed
  qed
qed

text \<open>
  Claim C9. A run that ends with the error of loading the catalog, with the error of
  loading the state or with a panic of the selection leaves every file as it was. A run
  that changes a file has loaded both, has got an assignment from
  \<open>SelectWeeklyDinners\<close>, and has then called \<open>SaveState\<close> on the state that the
  selection returned.
\<close>

theorem main_saves_only_after_selection:
  assumes "main L now now2 r w = Some (out, w')"
  shows "((\<exists>e. out = ErrorLoadingDinners e) \<or> (\<exists>e. out = ErrorLoadingState e) \<or> (\<exists>e. out = Panicked e)
            \<longrightarrow> w' = w) \<and>
         (w' \<noteq> w \<longrightarrow>
            (\<exists>dinners state sel state' r' saved.
               LoadDinners ''dinners.json'' w = (Inr dinners, w) \<and>
               LoadState L now w = (Inr state, w) \<and>
               SelectWeeklyDinners dinners (CheckNewWeek now2 state) r = Some (Inr (sel, state', r')) \<and>
               SaveState L state' w = (saved, w') \<and>
               out = (case saved of Inl e \<Rightarrow> ErrorSavingState e | Inr u \<Rightarrow> MenuPrinted sel)))"
proof (intro conjI impI)
  assume "(\<exists>e. out = ErrorLoadingDinners e) \<or> (\<exists>e. out = ErrorLoadingState e) \<or> (\<exists>e. out = Panicked e)"
  then show "w' = w"
    using main_cases [OF assms] by (elim disjE exE conjE) auto
next
  assume "w' \<noteq> w"
  with main_cases [OF assms] consider
    (failed) dinners state sel state' r' e where
      "LoadDinners ''dinners.json'' w = (Inr dinners, w)" "LoadState L now w = (Inr state, w)"
      "SelectWeeklyDinners dinners (CheckNewWeek now2 state) r = Some (Inr (sel, state', r'))"
      "SaveState L state' w = (Inl e, w')" "out = ErrorSavingState e"
  | (saved) dinners state sel state' r' where
      "LoadDinners ''dinners.json'' w = (Inr dinners, w)" "LoadState L now w = (Inr state, w)"
      "SelectWeeklyDinners dinners (CheckNewWeek now2 state) r = Some (Inr (sel, state', r'))"
      "SaveState L state' w = (Inr (), w')" "out = MenuPrinted sel"
    by (elim disjE exE conjE) auto
  then show "\<exists>dinners state sel state' r' saved.
       LoadDinners ''dinners.json'' w = (Inr dinners, w) \<and>
       LoadState L now w = (Inr state, w) \<and>
       SelectWeeklyDinners dinners (CheckNewWeek now2 state) r = Some (Inr (sel, state', r')) \<and>
       SaveState L state' w = (saved, w') \<and>
       out = (case saved of Inl e \<Rightarrow> ErrorSavingState e | Inr u \<Rightarrow> MenuPrinted sel)"
  proof cases
    case failed
    then show ?thesis
      by (intro exI [of _ dinners] exI [of _ state] exI [of _ sel] exI [of _ state'] exI [of _ r']
          exI [of _ "Inl e"]) simp
  next
    case saved
    then show ?thesis
      by (intro exI [of _ dinners] exI [of _ state] exI [of _ sel] exI [of _ state'] exI [of _ r']
          exI [of _ "Inr ()"]) simp
  qed
qed

text \<open>
  Claim C10. Without a state file, \<open>LoadState\<close> returns the state with empty lists
  and the current boundary and leaves the files as they are; a run that ends before it
  calls \<open>SaveState\<close> ends without a state file; a successful \<open>SaveState\<close> creates it.
\<close>

theorem LoadState_fresh_without_writing:
  assumes "files w StateFileName = None"
  shows "LoadState L now w =
           (Inr \<lparr>WeekStart = GetCurrentWeekStart now, CurrentWeek = [], PreviousWeek = []\<rparr>, w) \<and>
         (\<forall>out w'. main L now now2 r w = Some (out, w') \<and>
              (\<forall>sel. out \<noteq> MenuPrinted sel) \<and> (\<forall>e. out \<noteq> ErrorSavingState e)
            \<longrightarrow> files w' StateFileName = None) \<and>
         (\<forall>s w'. SaveState L s w = (Inr (), w') \<longrightarrow> files w' StateFileName \<noteq> None)"
proof (intro conjI allI impI)
  show "LoadState L now w =
      (Inr \<lparr>WeekStart = GetCurrentWeekStart now, CurrentWeek = [], PreviousWeek = []\<rparr>, w)"
    using assms by (simp add: LoadState_def Stat_IsNotExist_def)
next
  fix out w'
  assume a: "main L now now2 r w = Some (out, w') \<and>
      (\<forall>sel. out \<noteq> MenuPrinted sel) \<and> (\<forall>e. out \<noteq> ErrorSavingState e)"
  then have "w' = w" using main_cases [of L now now2 r w out w'] by (elim conjE disjE exE) auto
  then show "files w' StateFileName = None" using assms by simp
next
  fix s w'
  assume "SaveState L s w = (Inr (), w')"
  then show "files w' StateFileName \<noteq> None" by (auto simp: SaveState_success)
qed

subsection \<open>Four runs\<close>

lemma StateFileName_neq [simp]: "StateFileName \<noteq> ''dinners.json''" "''dinners.json'' \<noteq> StateFileName"
  by (simp_all add: StateFileName_def)

lemma missing_catalog_run:
  "main L now now2 r empty_world = Some (ErrorLoadingDinners ErrorReadingFile, empty_world)"
  by (simp add: main_def LoadDinners_def ReadFile_def empty_world_def)

lemma no_soup_LoadDinners:
  "LoadDinners ''dinners.json'' no_soup_world = (Inr \<lparr>Dinners = [''soup'' \<mapsto> []]\<rparr>, no_soup_world)"
  by (simp add: LoadDinners_def ReadFile_def no_soup_world_def Unmarshal_DinnerData_def
      DinnerData_field_def decode_categories_def category_member_def decode_slice_def)

lemma no_soup_run:
  "main L now now2 r no_soup_world = Some (Panicked (EmptyCategory ''soup''), no_soup_world)"
proof -
  have st: "LoadState L now no_soup_world =
      (Inr \<lparr>WeekStart = GetCurrentWeekStart now, CurrentWeek = [], PreviousWeek = []\<rparr>, no_soup_world)"
    by (simp add: LoadState_def Stat_IsNotExist_def no_soup_world_def StateFileName_def)
  have "PickRandomDinner \<lparr>Dinners = [''soup'' \<mapsto> []]\<rparr> ''soup'' r = Inl (EmptyCategory ''soup'')"
    by (simp add: PickRandomDinner_def category_slice_def)
  then have "SelectWeeklyDinners \<lparr>Dinners = [''soup'' \<mapsto> []]\<rparr> state r
      = Some (Inl (EmptyCategory ''soup''))" for state
    by (simp add: SelectWeeklyDinners_def pickDinnerFromCategory_panic)
  then show ?thesis
    by (simp add: main_def no_soup_LoadDinners st)
qed

lemma garbled_state_run:
  "main L now now2 r garbled_state_world = Some (ErrorLoadingState ErrorParsingStateJSON, garbled_state_world)"
proof -
  have "LoadDinners ''dinners.json'' garbled_state_world = (Inr \<lparr>Dinners = Map.empty\<rparr>, garbled_state_world)"
    by (simp add: LoadDinners_def ReadFile_def garbled_state_world_def Unmarshal_DinnerData_def)
  moreover have "LoadState L now garbled_state_world = (Inl ErrorParsingStateJSON, garbled_state_world)"
    by (simp add: LoadState_def Stat_IsNotExist_def ReadFile_def garbled_state_world_def
        StateFileName_def Unmarshal_WeekState_def)
  ultimately show ?thesis by (simp add: main_def)
qed

lemma example_LoadDinners:
  "LoadDinners ''dinners.json'' example_world = (Inr example_catalog, example_world)"
proof -
  have d: "decode_slice (decode_Dinner zero_Dinner) (JArray (map (encode_Dinner unary_lib) ds)) = Some ds"
    for ds by (rule decode_Dinners_round_trip) (simp add: list_all_iff)
  have "Unmarshal_DinnerData (Document example_catalog_json) = Some example_catalog"
    by (simp add: Unmarshal_DinnerData_def example_catalog_json_def DinnerData_field_def
        decode_categories_def category_member_def example_catalog_def
        d [of "[minestrone, pho]", simplified] d [of "[ramen, fried_rice]", simplified]
        d [of "[lasagna]", simplified] d [of "[pizza]", simplified] d [of "[caesar]", simplified])
  then show ?thesis
    by (simp add: LoadDinners_def ReadFile_def example_world_def)
qed

lemma example_LoadState:
  "LoadState unary_lib now example_world = (Inr last_week_state, example_world)"
proof -
  obtain c where c: "MarshalIndent_WeekState unary_lib last_week_state = Some c"
    using unary_marshal [of last_week_state] by (auto simp: last_week_state_def Date_utc)
  have "Unmarshal_WeekState unary_lib c = Some last_week_state"
    using unary_round_trip unary_utf8_state c by (rule Unmarshal_MarshalIndent)
  then show ?thesis
    by (simp add: LoadState_def Stat_IsNotExist_def ReadFile_def example_world_def c StateFileName_def)
qed

lemma example_CheckNewWeek: "CheckNewWeek thursday_evening last_week_state = example_state"
  by (simp add: CheckNewWeek_def week_start_utc last_week_state_def example_state_def Equal_def
      Date_utc Let_def)

lemma example_main_run:
  "main unary_lib tuesday_noon thursday_evening example_draws example_world
     = Some (MenuPrinted example_selections,
             snd (SaveState unary_lib example_state_after example_world))"
proof -
  have "fst (SaveState unary_lib example_state_after example_world) = Inr ()"
    by (rule unary_save) (simp_all add: example_state_after_def example_state_def Date_utc example_world_def)
  then obtain w3 where sv: "SaveState unary_lib example_state_after example_world = (Inr (), w3)"
    by (metis prod.collapse)
  then have "main unary_lib tuesday_noon thursday_evening example_draws example_world
      = Some (MenuPrinted example_selections, w3)"
    by (simp add: main_def example_LoadDinners example_LoadState example_CheckNewWeek example_run)
  then show ?thesis by (simp add: sv)
qed

lemma example_world_changed:
  "snd (SaveState unary_lib example_state_after example_world) \<noteq> example_world"
proof
  let ?w = "snd (SaveState unary_lib example_state_after example_world)"
  assume eq: "?w = example_world"
  have "fst (SaveState unary_lib example_state_after example_world) = Inr ()"
    by (rule unary_save) (simp_all add: example_state_after_def example_state_def Date_utc example_world_def)
  then have sv: "SaveState unary_lib example_state_after example_world = (Inr (), ?w)"
    by (metis prod.collapse)
  have "LoadState unary_lib tuesday_noon ?w = (Inr example_state_after, ?w)"
    using unary_round_trip unary_utf8_state sv by (rule LoadState_reads_saved)
  then have "last_week_state = example_state_after"
    using example_LoadState [of tuesday_noon] eq by simp
  then show False
    by (simp add: last_week_state_def example_state_after_def example_state_def)
qed

theorem main_saves_only_after_selection_witness:
  "main unary_lib tuesday_noon thursday_evening example_draws empty_world
     = Some (ErrorLoadingDinners ErrorReadingFile, empty_world) \<and>
   main unary_lib tuesday_noon thursday_evening example_draws garbled_state_world
     = Some (ErrorLoadingState ErrorParsingStateJSON, garbled_state_world) \<and>
   main unary_lib tuesday_noon thursday_evening example_draws no_soup_world
     = Some (Panicked (EmptyCategory ''soup''), no_soup_world) \<and>
   main unary_lib tuesday_noon thursday_evening example_draws example_world
     = Some (MenuPrinted example_selections,
             snd (SaveState unary_lib example_state_after example_world)) \<and>
   snd (SaveState unary_lib example_state_after example_world) \<noteq> example_world \<and>
   (\<exists>dinners state sel state' r' saved.
      LoadDinners ''dinners.json'' example_world = (Inr dinners, example_world) \<and>
      LoadState unary_lib tuesday_noon example_world = (Inr state, example_world) \<and>
      SelectWeeklyDinners dinners (CheckNewWeek thursday_evening state) example_draws
        = Some (Inr (sel, state', r')) \<and>
      SaveState unary_lib state' example_world
        = (saved, snd (SaveState unary_lib example_state_after example_world)) \<and>
      MenuPrinted example_selections
        = (case saved of Inl e \<Rightarrow> ErrorSavingState e | Inr u \<Rightarrow> MenuPrinted sel))"
proof -
  have "\<exists>dinners state sel state' r' saved.
      LoadDinners ''dinners.json'' example_world = (Inr dinners, example_world) \<and>
      LoadState unary_lib tuesday_noon example_world = (Inr state, example_world) \<and>
      SelectWeeklyDinners dinners (CheckNewWeek thursday_evening state) example_draws
        = Some (Inr (sel, state', r')) \<and>
      SaveState unary_lib state' example_world
        = (saved, snd (SaveState unary_lib example_state_after example_world)) \<and>
      MenuPrinted example_selections
        = (case saved of Inl e \<Rightarrow> ErrorSavingState e | Inr u \<Rightarrow> MenuPrinted sel)"
    using main_saves_only_after_selection [OF example_main_run, THEN conjunct2] example_world_changed
    by blast
  then show ?thesis
    using missing_catalog_run garbled_state_run no_soup_run example_main_run example_world_changed
    by simp
qed

theorem LoadState_fresh_without_writing_witness:
  "files no_soup_world StateFileName = None \<and>
   LoadState unary_lib tuesday_noon no_soup_world
     = (Inr \<lparr>WeekStart = Date 20002 0 0 utc, CurrentWeek = [], PreviousWeek = []\<rparr>, no_soup_world) \<and>
   main unary_lib tuesday_noon thursday_evening example_draws no_soup_world
     = Some (Panicked (EmptyCategory ''soup''), no_soup_world) \<and>
   fst (SaveState unary_lib example_state no_soup_world) = Inr () \<and>
   files (snd (SaveState unary_lib example_state no_soup_world)) StateFileName \<noteq> None"
proof -
  have none: "files no_soup_world StateFileName = None"
    by (simp add: no_soup_world_def StateFileName_def)
  note t = LoadState_fresh_without_writing [OF none, of unary_lib tuesday_noon thursday_evening example_draws]
  have ws: "GetCurrentWeekStart tuesday_noon = Date 20002 0 0 utc"
    by (rule week_start_utc)
  have 1: "LoadState unary_lib tuesday_noon no_soup_world
     = (Inr \<lparr>WeekStart = Date 20002 0 0 utc, CurrentWeek = [], PreviousWeek = []\<rparr>, no_soup_world)"
    using t [THEN conjunct1] by (simp add: ws)
  have 2: "fst (SaveState unary_lib example_state no_soup_world) = Inr ()"
    by (rule unary_save) (simp_all add: example_state_def Date_utc no_soup_world_def)
  then obtain w3 where sv: "SaveState unary_lib example_state no_soup_world = (Inr (), w3)"
    by (metis prod.collapse)
  then have "files w3 StateFileName \<noteq> None"
    using t [THEN conjunct2, THEN conjunct2] by blast
  then have 3: "files (snd (SaveState unary_lib example_state no_soup_world)) StateFileName \<noteq> None"
    by (simp add: sv)
  show ?thesis using none 1 2 3 no_soup_run by simp
qed

end
